theory Spec2Isabelle
  imports Complex_Main "HOL-Library.Log_Nat"
begin

section \<open>Errors\<close>

text \<open>
  Every way in which the Python of \<^verbatim>\<open>examples/export.py\<close> can stop is a value:
  the \<^verbatim>\<open>assert\<close> of \<^verbatim>\<open>im2col_3d\<close> with its message, an index outside a tensor
  axis, a runtime error of the tensor library (a negative size given to
  \<^verbatim>\<open>torch.zeros\<close>, an ambiguous \<^verbatim>\<open>view\<close>, an integer division by zero), and the use
  of an object that is not a sparse tensor as one.
\<close>

datatype error =
    AssertionError string
  | IndexError
  | RuntimeError
  | AttributeError

section \<open>Tensors\<close>

text \<open>
  A sparse tensor has an \<open>N \<times> 4\<close> integer coordinate matrix, one row
  \<open>(batch, z, y, x)\<close> per entry, an \<open>N \<times> C\<close> feature matrix and a tensor stride
  per spatial axis.  The feature values are copied, converted to another element type
  and compared with zero, never computed with, so their type is any type with a zero.
\<close>

type_synonym coordinate = "int \<times> int \<times> int \<times> int"

record 'a sparse_tensor =
  coordinates :: "coordinate list"
  features :: "'a list list"
  tensor_stride :: "int \<times> int \<times> int"

text \<open>
  A dense 5-dimensional tensor is its size
  \<open>(batch_size, channels, depth, height, width)\<close> and its element at each index.
  Only the cells inside the size are ever read.
\<close>

type_synonym idx5 = "nat \<times> nat \<times> nat \<times> nat \<times> nat"

record 'a tensor5 =
  size5 :: idx5
  at5 :: "idx5 \<Rightarrow> 'a"

text \<open>
  The two 8-dimensional patch tensors \<^verbatim>\<open>col_unconstrained\<close> and \<^verbatim>\<open>col\<close> have the
  fixed shape \<open>(batch_size, channels, K, K, K, out_depth, out_height, out_width)\<close>
  and are indexed in that order.
\<close>

type_synonym idx8 = "nat \<times> nat \<times> nat \<times> nat \<times> nat \<times> nat \<times> nat \<times> nat"

type_synonym 'a tensor8 = "idx8 \<Rightarrow> 'a"

section \<open>Densification\<close>

text \<open>
  Modelled from the spec: the method \<^verbatim>\<open>SparseTensor.dense(min_coordinate=...)\<close> of the
  sparse tensor library, which \<^verbatim>\<open>im2col_3d\<close> calls and which is not part of
  \<^verbatim>\<open>examples/export.py\<close>.  The spec describes it as materialising the coordinates of
  the sparse tensor into a zero-filled grid indexed by
  \<open>(batch, channel, depth, height, width)\<close>, with an explicit minimum-coordinate
  offset and stride; it returns the grid, the minimum coordinate and the per-axis
  tensor stride, and a sparse coordinate sits at the local index
  \<open>(coord - min_coordinate) / tensor_stride\<close> (floor division) of each axis.

  The spec names no failure of the densification, and the model has none.  The grid
  starts at the minimum coordinate and is the smallest one that holds every entry
  lying at or above it (one cell per axis at least).  An entry with a negative local
  index has no cell in such a grid, and the spec does not say what becomes of it: the
  model leaves the grid as it is.  When two entries fall on one cell the later one is
  kept.
\<close>

definition local_index :: "int \<times> int \<times> int \<Rightarrow> int \<times> int \<times> int \<Rightarrow> coordinate \<Rightarrow> coordinate" where
  "local_index min_coordinate stride crds =
     (case (min_coordinate, stride, crds) of
        ((mz, my, mx), (sz, sy, sx), (b, z, y, x)) \<Rightarrow>
          (b, (z - mz) div sz, (y - my) div sy, (x - mx) div sx))"

definition nchannels :: "'a sparse_tensor \<Rightarrow> nat" where
  "nchannels s = (case features s of [] \<Rightarrow> 0 | f # _ \<Rightarrow> length f)"

definition in_grid :: "coordinate \<Rightarrow> bool" where
  "in_grid l = (case l of (b, z, y, x) \<Rightarrow> 0 \<le> b \<and> 0 \<le> z \<and> 0 \<le> y \<and> 0 \<le> x)"

definition extent :: "int list \<Rightarrow> nat" where
  "extent is = nat (fold max is 0) + 1"

definition write_entry :: "coordinate \<times> 'a list \<Rightarrow> (idx5 \<Rightarrow> 'a::zero) \<Rightarrow> (idx5 \<Rightarrow> 'a)" where
  "write_entry e g =
     (case e of ((b, z, y, x), f) \<Rightarrow>
        if in_grid (b, z, y, x)
        then (\<lambda>(b', c, z', y', x').
                if b' = nat b \<and> z' = nat z \<and> y' = nat y \<and> x' = nat x
                then (if c < length f then f ! c else 0)
                else g (b', c, z', y', x'))
        else g)"

definition dense ::
  "'a::zero sparse_tensor \<Rightarrow> int \<times> int \<times> int \<Rightarrow>
     'a tensor5 \<times> (int \<times> int \<times> int) \<times> (int \<times> int \<times> int)" where
  "dense s min_coordinate =
     (let stride = tensor_stride s;
          locals = map (local_index min_coordinate stride) (coordinates s)
      in (\<lparr> size5 = (extent (map fst locals), nchannels s,
                       extent (map (fst \<circ> snd) locals),
                       extent (map (fst \<circ> snd \<circ> snd) locals),
                       extent (map (snd \<circ> snd \<circ> snd) locals)),
              at5 = fold write_entry (zip locals (features s)) (\<lambda>_. 0) \<rparr>,
          min_coordinate, stride))"

section \<open>The patch extractor\<close>

text \<open>\<^verbatim>\<open>torch.nn.functional.pad\<close> with the same amount on both sides of the three
  spatial axes: the grid grows by \<open>2 * padding\<close> per axis and the new cells are zero.\<close>

definition pad3d :: "nat \<Rightarrow> 'a::zero tensor5 \<Rightarrow> 'a tensor5" where
  "pad3d p t =
     (case size5 t of (bs, ch, d, h, w) \<Rightarrow>
        \<lparr> size5 = (bs, ch, d + 2 * p, h + 2 * p, w + 2 * p),
          at5 = (\<lambda>(b, c, z, y, x).
                   if p \<le> z \<and> z < p + d \<and> p \<le> y \<and> y < p + h \<and> p \<le> x \<and> x < p + w
                   then at5 t (b, c, z - p, y - p, x - p) else 0) \<rparr>)"

text \<open>Lines 136-137: the padding is applied only when it is positive.\<close>

definition pad_input :: "int \<Rightarrow> 'a::zero tensor5 \<Rightarrow> 'a tensor5" where
  "pad_input padding input_data =
     (if padding > 0 then pad3d (nat padding) input_data else input_data)"

text \<open>\<^verbatim>\<open>math.ceil(a / stride)\<close> on integers.\<close>

definition ceil_div :: "int \<Rightarrow> int \<Rightarrow> int" where
  "ceil_div a s = - ((- a) div s)"

text \<open>Lines 143-145: the extent of the output along one axis of the (padded) input.\<close>

definition out_dim :: "nat \<Rightarrow> int \<Rightarrow> int \<Rightarrow> int" where
  "out_dim n kernel_size stride = ceil_div (int n - kernel_size + 1) stride"

text \<open>
  Lines 149-157 create \<^verbatim>\<open>col_unconstrained\<close> and \<^verbatim>\<open>col\<close> with \<^verbatim>\<open>torch.zeros\<close> and no
  \<^verbatim>\<open>dtype\<close>: they are float32 tensors, whatever the element type of the input is.  The
  assignment of line 166 therefore converts every element it copies to float32.  The
  conversion is the parameter \<open>to_float32\<close> of the model, of which nothing is assumed;
  for an input that is a float32 tensor already it is the identity.

  Line 166, the body of the three nested loops: the slab of
  \<^verbatim>\<open>col_unconstrained\<close> at the kernel offset \<open>(z, y, x)\<close> receives the slice of the
  input that starts at that offset.  With stride 1, which the assertion enforces, the
  slice has exactly the output extents.
\<close>

definition assign_slab ::
  "('a \<Rightarrow> 'b) \<Rightarrow> 'a tensor5 \<Rightarrow> nat \<Rightarrow> nat \<Rightarrow> nat \<Rightarrow> nat \<Rightarrow> 'b tensor8 \<Rightarrow> 'b tensor8" where
  "assign_slab to_float32 input_data stride z y x cu =
     (\<lambda>(b, c, kz, ky, kx, oz, oy, ox).
        if kz = z \<and> ky = y \<and> kx = x
        then to_float32 (at5 input_data (b, c, z + stride * oz, y + stride * oy, x + stride * ox))
        else cu (b, c, kz, ky, kx, oz, oy, ox))"

text \<open>Lines 160-166: the loops over the kernel offsets, each a \<open>range(0, kernel_size)\<close>.\<close>

definition fill_patches :: "('a \<Rightarrow> 'b) \<Rightarrow> 'a tensor5 \<Rightarrow> nat \<Rightarrow> nat \<Rightarrow> 'b::zero tensor8" where
  "fill_patches to_float32 input_data kernel_size stride =
     fold (\<lambda>z. fold (\<lambda>y. fold (\<lambda>x. assign_slab to_float32 input_data stride z y x)
                               [0..<kernel_size])
                     [0..<kernel_size])
          [0..<kernel_size] (\<lambda>_. 0)"

text \<open>
  An integer index into a tensor axis of size \<open>n\<close>: a negative index counts from the
  end, and an index outside \<open>[-n, n)\<close> is an error.
\<close>

definition tensor_index :: "nat \<Rightarrow> int \<Rightarrow> error + nat" where
  "tensor_index n i =
     (if 0 \<le> i \<and> i < int n then Inr (nat i)
      else if - int n \<le> i \<and> i < 0 then Inr (nat (i + int n))
      else Inl IndexError)"

text \<open>
  Lines 171-176: the output index of one coordinate row.  The integer division by a
  zero tensor stride is a runtime error of the tensor library.
\<close>

definition slab_index ::
  "nat \<times> nat \<times> nat \<times> nat \<Rightarrow> int \<times> int \<times> int \<Rightarrow> int \<times> int \<times> int \<Rightarrow> coordinate \<Rightarrow>
     error + (nat \<times> nat \<times> nat \<times> nat)" where
  "slab_index dims min_coordinate stride crds =
     (case (dims, stride, local_index min_coordinate stride crds) of
        ((bs, od, oh, ow), (sz, sy, sx), (batch, z, y, x)) \<Rightarrow>
          if sz = 0 \<or> sy = 0 \<or> sx = 0 then Inl RuntimeError
          else (case (tensor_index bs batch, tensor_index od z,
                      tensor_index oh y, tensor_index ow x) of
                  (Inr b', Inr z', Inr y', Inr x') \<Rightarrow> Inr (b', z', y', x')
                | _ \<Rightarrow> Inl IndexError))"

text \<open>Line 177: the slab of one output location is copied from \<^verbatim>\<open>col_unconstrained\<close>.\<close>

definition copy_slab :: "'a tensor8 \<Rightarrow> nat \<times> nat \<times> nat \<times> nat \<Rightarrow> 'a tensor8 \<Rightarrow> 'a tensor8" where
  "copy_slab cu l col =
     (\<lambda>(b, c, kz, ky, kx, oz, oy, ox).
        if (b, oz, oy, ox) = l then cu (b, c, kz, ky, kx, oz, oy, ox)
        else col (b, c, kz, ky, kx, oz, oy, ox))"

text \<open>Lines 170-177: the loop over the coordinate rows, in their order.\<close>

fun enforce_sparsity ::
  "nat \<times> nat \<times> nat \<times> nat \<Rightarrow> int \<times> int \<times> int \<Rightarrow> int \<times> int \<times> int \<Rightarrow> 'a tensor8 \<Rightarrow>
     coordinate list \<Rightarrow> 'a tensor8 \<Rightarrow> error + 'a tensor8" where
  "enforce_sparsity dims mc st cu [] col = Inr col"
| "enforce_sparsity dims mc st cu (crds # rest) col =
     (case slab_index dims mc st crds of
        Inl e \<Rightarrow> Inl e
      | Inr l \<Rightarrow> enforce_sparsity dims mc st cu rest (copy_slab cu l col))"

text \<open>
  The position \<open>i\<close> of a contiguous block of shape \<open>(n1, n2, n3)\<close>, as an index:
  row-major order, the last axis fastest.
\<close>

definition unravel3 :: "nat \<Rightarrow> nat \<Rightarrow> nat \<Rightarrow> nat \<times> nat \<times> nat" where
  "unravel3 n2 n3 i = (i div (n2 * n3), (i mod (n2 * n3)) div n3, (i mod (n2 * n3)) mod n3)"

text \<open>
  Lines 179-180.  \<^verbatim>\<open>view(batch_size, -1, n)\<close> reads the contiguous 8-dimensional
  tensor as \<open>(batch_size, channels * K * K * K, n)\<close> with
  \<open>n = out_depth * out_height * out_width\<close>; the size \<open>-1\<close> cannot be inferred, and
  the call fails, when \<open>batch_size * n = 0\<close>.  After \<^verbatim>\<open>transpose(1, 2)\<close> and
  \<^verbatim>\<open>contiguous()\<close> the second \<^verbatim>\<open>view\<close> merges the first two axes, so row \<open>r\<close> of the
  result is position \<open>r\<close> of \<open>(batch_size, out_depth, out_height, out_width)\<close> and
  column \<open>j\<close> is position \<open>j\<close> of \<open>(channels, K, K, K)\<close>.
\<close>

definition location :: "nat \<times> nat \<times> nat \<Rightarrow> nat \<Rightarrow> nat \<times> nat \<times> nat \<times> nat" where
  "location odims r =
     (case odims of (od, oh, ow) \<Rightarrow>
        (r div (od * oh * ow), unravel3 oh ow (r mod (od * oh * ow))))"

definition flatten_col ::
  "nat \<times> nat \<times> nat \<times> nat \<times> nat \<Rightarrow> nat \<Rightarrow> 'a tensor8 \<Rightarrow> error + 'a list list" where
  "flatten_col dims k col =
     (case dims of (bs, ch, od, oh, ow) \<Rightarrow>
        if bs * (od * oh * ow) = 0 then Inl RuntimeError
        else Inr (map (\<lambda>r. map (\<lambda>j.
                    (case (location (od, oh, ow) r, unravel3 k k (j mod (k * k * k))) of
                       ((b, oz, oy, ox), (kz, ky, kx)) \<Rightarrow>
                         col (b, j div (k * k * k), kz, ky, kx, oz, oy, ox)))
                    [0..<ch * (k * k * k)]) [0..<bs * (od * oh * ow)]))"

text \<open>
  \<^verbatim>\<open>im2col_3d(input_sparse, kernel_size, stride=1, padding=0)\<close>, as a function of the
  sparse tensor it is given.  \<^verbatim>\<open>torch.zeros\<close> refuses a negative size.  The matrix
  returned is a float32 tensor.
\<close>

definition im2col_3d ::
  "('a \<Rightarrow> 'b) \<Rightarrow> 'a::zero sparse_tensor \<Rightarrow> int \<Rightarrow> int \<Rightarrow> int \<Rightarrow> error + 'b::zero list list" where
  "im2col_3d to_float32 input_sparse kernel_size stride padding =
     (if stride \<noteq> 1 then Inl (AssertionError ''stride must be 1'')
      else case dense input_sparse (0, 0, 0) of
        (dense_data, min_coordinate, tstride) \<Rightarrow>
          let input_data = pad_input padding dense_data in
          (case size5 input_data of (batch_size, channels, depth, height, width) \<Rightarrow>
             let out_depth = out_dim depth kernel_size stride;
                 out_height = out_dim height kernel_size stride;
                 out_width = out_dim width kernel_size stride
             in if kernel_size < 0 \<or> out_depth < 0 \<or> out_height < 0 \<or> out_width < 0
                then Inl RuntimeError
                else
                  let col_unconstrained =
                        fill_patches to_float32 input_data (nat kernel_size) (nat stride)
                  in (case enforce_sparsity
                              (batch_size, nat out_depth, nat out_height, nat out_width)
                              min_coordinate tstride col_unconstrained
                              (coordinates input_sparse) (\<lambda>_. 0) of
                        Inl e \<Rightarrow> Inl e
                      | Inr col \<Rightarrow>
                          flatten_col (batch_size, channels, nat out_depth, nat out_height,
                                       nat out_width) (nat kernel_size) col)))"

section \<open>The patch extractor on a store of objects\<close>

text \<open>
  The same function as a program on the objects of the Python heap, to tell which of
  them it writes.  An object is a sparse tensor, a dense 5-dimensional tensor of the
  input's element type, an 8-dimensional float32 tensor or a float32 matrix; its address
  is its position in the store, and a new object takes the next address.
\<close>

datatype ('a, 'b) object =
    Sparse "'a sparse_tensor"
  | Tensor5 "'a tensor5"
  | Tensor8 "'b tensor8"
  | Matrix "'b list list"

type_synonym ('a, 'b) store = "('a, 'b) object list"

definition allocate :: "('a, 'b) object \<Rightarrow> ('a, 'b) store \<Rightarrow> nat \<times> ('a, 'b) store" where
  "allocate obj \<sigma> = (length \<sigma>, \<sigma> @ [obj])"

definition sparse_at :: "('a, 'b) store \<Rightarrow> nat \<Rightarrow> 'a sparse_tensor option" where
  "sparse_at \<sigma> a =
     (if a < length \<sigma> then (case \<sigma> ! a of Sparse s \<Rightarrow> Some s | _ \<Rightarrow> None) else None)"

definition matrix_at :: "('a, 'b) store \<Rightarrow> nat \<Rightarrow> 'b list list option" where
  "matrix_at \<sigma> a =
     (if a < length \<sigma> then (case \<sigma> ! a of Matrix m \<Rightarrow> Some m | _ \<Rightarrow> None) else None)"

text \<open>
  The tensor behind a variable of the function.  Every such variable holds the address
  of a tensor of its kind; the other cases give an empty tensor and are never met.
\<close>

definition tensor5_at :: "('a::zero, 'b) store \<Rightarrow> nat \<Rightarrow> 'a tensor5" where
  "tensor5_at \<sigma> a =
     (if a < length \<sigma>
      then (case \<sigma> ! a of Tensor5 t \<Rightarrow> t | _ \<Rightarrow> \<lparr>size5 = (0, 0, 0, 0, 0), at5 = (\<lambda>_. 0)\<rparr>)
      else \<lparr>size5 = (0, 0, 0, 0, 0), at5 = (\<lambda>_. 0)\<rparr>)"

definition tensor8_at :: "('a, 'b::zero) store \<Rightarrow> nat \<Rightarrow> 'b tensor8" where
  "tensor8_at \<sigma> a =
     (if a < length \<sigma> then (case \<sigma> ! a of Tensor8 t \<Rightarrow> t | _ \<Rightarrow> (\<lambda>_. 0)) else (\<lambda>_. 0))"

text \<open>
  An assignment to a slice of the 8-dimensional tensor behind a variable writes the
  object at the address the variable holds, whatever that object is.
\<close>

definition write8 :: "nat \<Rightarrow> 'b tensor8 \<Rightarrow> ('a, 'b) store \<Rightarrow> ('a, 'b) store" where
  "write8 a t \<sigma> = \<sigma>[a := Tensor8 t]"

text \<open>
  Line 166 as a statement: it reads the tensor of \<^verbatim>\<open>input_data\<close> and writes the one of
  \<^verbatim>\<open>col_unconstrained\<close>.
\<close>

definition assign_slab_run ::
  "('a \<Rightarrow> 'b) \<Rightarrow> nat \<Rightarrow> nat \<Rightarrow> nat \<Rightarrow> nat \<Rightarrow> nat \<Rightarrow> nat \<Rightarrow>
     ('a::zero, 'b::zero) store \<Rightarrow> ('a, 'b) store" where
  "assign_slab_run to_float32 col_unconstrained input_data stride z y x \<sigma> =
     write8 col_unconstrained
       (assign_slab to_float32 (tensor5_at \<sigma> input_data) stride z y x
          (tensor8_at \<sigma> col_unconstrained)) \<sigma>"

text \<open>Lines 160-166 as statements.\<close>

definition fill_patches_run ::
  "('a \<Rightarrow> 'b) \<Rightarrow> nat \<Rightarrow> nat \<Rightarrow> nat \<Rightarrow> nat \<Rightarrow> ('a::zero, 'b::zero) store \<Rightarrow> ('a, 'b) store" where
  "fill_patches_run to_float32 col_unconstrained input_data kernel_size stride \<sigma> =
     fold (\<lambda>z. fold (\<lambda>y. fold (\<lambda>x. assign_slab_run to_float32 col_unconstrained input_data
                                        stride z y x)
                               [0..<kernel_size])
                     [0..<kernel_size])
          [0..<kernel_size] \<sigma>"

text \<open>
  Lines 170-177 as statements, for the row numbers of \<^verbatim>\<open>range(...)\<close>: every turn reads
  row \<open>i\<close> of the coordinate matrix of the sparse tensor and the tensor of
  \<^verbatim>\<open>col_unconstrained\<close>, and writes the tensor of \<^verbatim>\<open>col\<close>.  The result is the exception
  that stopped the loop, if any, and the store.
\<close>

fun enforce_sparsity_run ::
  "nat \<times> nat \<times> nat \<times> nat \<Rightarrow> int \<times> int \<times> int \<Rightarrow> int \<times> int \<times> int \<Rightarrow> nat \<Rightarrow> nat \<Rightarrow> nat \<Rightarrow>
     nat list \<Rightarrow> ('a, 'b::zero) store \<Rightarrow> error option \<times> ('a, 'b) store" where
  "enforce_sparsity_run dims mc st input_sparse col_unconstrained col [] \<sigma> = (None, \<sigma>)"
| "enforce_sparsity_run dims mc st input_sparse col_unconstrained col (i # rest) \<sigma> =
     (case sparse_at \<sigma> input_sparse of
        None \<Rightarrow> (Some AttributeError, \<sigma>)
      | Some s \<Rightarrow>
          if length (coordinates s) \<le> i then (Some IndexError, \<sigma>)
          else (case slab_index dims mc st (coordinates s ! i) of
                  Inl e \<Rightarrow> (Some e, \<sigma>)
                | Inr l \<Rightarrow>
                    enforce_sparsity_run dims mc st input_sparse col_unconstrained col rest
                      (write8 col (copy_slab (tensor8_at \<sigma> col_unconstrained) l
                                     (tensor8_at \<sigma> col)) \<sigma>)))"

text \<open>
  \<^verbatim>\<open>im2col_3d\<close> called with the address of its argument.  The densification (modelled
  from the spec: it produces the grid, a new object, and leaves the sparse tensor as it
  is), \<^verbatim>\<open>torch.nn.functional.pad\<close>, the two calls of \<^verbatim>\<open>torch.zeros\<close> and
  \<^verbatim>\<open>contiguous()\<close> create new objects; the assignments of lines 166 and 177 write
  \<^verbatim>\<open>col_unconstrained\<close> and \<^verbatim>\<open>col\<close>.  The result is the address of the matrix, or the
  exception, and the store after the call.
\<close>

definition im2col_3d_run ::
  "('a \<Rightarrow> 'b) \<Rightarrow> nat \<Rightarrow> int \<Rightarrow> int \<Rightarrow> int \<Rightarrow> ('a::zero, 'b::zero) store \<Rightarrow>
     (error + nat) \<times> ('a, 'b) store" where
  "im2col_3d_run to_float32 input_sparse kernel_size stride padding \<sigma> =
     (if stride \<noteq> 1 then (Inl (AssertionError ''stride must be 1''), \<sigma>)
      else case sparse_at \<sigma> input_sparse of
        None \<Rightarrow> (Inl AttributeError, \<sigma>)
      | Some s \<Rightarrow>
          (case dense s (0, 0, 0) of (dense_data, min_coordinate, tstride) \<Rightarrow>
          (case allocate (Tensor5 dense_data) \<sigma> of (dense_address, \<sigma>1) \<Rightarrow>
          (case (if padding > 0
                 then allocate (Tensor5 (pad3d (nat padding) (tensor5_at \<sigma>1 dense_address))) \<sigma>1
                 else (dense_address, \<sigma>1)) of (input_data, \<sigma>2) \<Rightarrow>
          (case size5 (tensor5_at \<sigma>2 input_data) of (batch_size, channels, depth, height, width) \<Rightarrow>
             let out_depth = out_dim depth kernel_size stride;
                 out_height = out_dim height kernel_size stride;
                 out_width = out_dim width kernel_size stride
             in if kernel_size < 0 \<or> out_depth < 0 \<or> out_height < 0 \<or> out_width < 0
                then (Inl RuntimeError, \<sigma>2)
                else
                  (case allocate (Tensor8 (\<lambda>_. 0)) \<sigma>2 of (col_unconstrained, \<sigma>3) \<Rightarrow>
                  (case allocate (Tensor8 (\<lambda>_. 0)) \<sigma>3 of (col, \<sigma>4) \<Rightarrow>
                     let \<sigma>5 = fill_patches_run to_float32 col_unconstrained input_data
                                (nat kernel_size) (nat stride) \<sigma>4
                     in (case sparse_at \<sigma>5 input_sparse of
                           None \<Rightarrow> (Inl AttributeError, \<sigma>5)
                         | Some s5 \<Rightarrow>
                             (case enforce_sparsity_run
                                     (batch_size, nat out_depth, nat out_height, nat out_width)
                                     min_coordinate tstride input_sparse col_unconstrained col
                                     [0..<length (coordinates s5)] \<sigma>5 of
                                (Some e, \<sigma>6) \<Rightarrow> (Inl e, \<sigma>6)
                              | (None, \<sigma>6) \<Rightarrow>
                                  (case flatten_col (batch_size, channels, nat out_depth,
                                                     nat out_height, nat out_width)
                                          (nat kernel_size) (tensor8_at \<sigma>6 col) of
                                     Inl e \<Rightarrow> (Inl e, \<sigma>6)
                                   | Inr m \<Rightarrow>
                                       (case allocate (Matrix m) \<sigma>6 of
                                          (a, \<sigma>7) \<Rightarrow> (Inr a, \<sigma>7))))))))))))"

text \<open>What the caller holds after the call: the matrix behind the address, or the exception.\<close>

definition returned :: "error + nat \<Rightarrow> ('a, 'b) store \<Rightarrow> error + 'b list list" where
  "returned r \<sigma> =
     (case r of
        Inl e \<Rightarrow> Inl e
      | Inr a \<Rightarrow> (case matrix_at \<sigma> a of None \<Rightarrow> Inl AttributeError | Some m \<Rightarrow> Inr m))"

section \<open>The patch matrix, as the specification describes it\<close>

text \<open>
  The shape of the output, from the size of the (padded) input: the batch size and the
  channels are kept, each spatial extent is \<^const>\<open>out_dim\<close>.
\<close>

definition out_shape :: "'a tensor5 \<Rightarrow> int \<Rightarrow> int \<Rightarrow> nat \<times> nat \<times> nat \<times> nat \<times> nat" where
  "out_shape input_data kernel_size stride =
     (case size5 input_data of (bs, ch, d, h, w) \<Rightarrow>
        (bs, ch, nat (out_dim d kernel_size stride), nat (out_dim h kernel_size stride),
         nat (out_dim w kernel_size stride)))"

text \<open>
  The receptive field of the output location \<open>(b, z, y, x)\<close>: the window of
  \<open>K\<^sup>3\<close> cells of every channel of the input that starts at \<open>(z, y, x)\<close>, listed with
  the channel outermost and then the kernel offsets \<open>kz\<close>, \<open>ky\<close>, \<open>kx\<close>.
\<close>

definition receptive_field :: "'a tensor5 \<Rightarrow> nat \<Rightarrow> nat \<times> nat \<times> nat \<times> nat \<Rightarrow> 'a list" where
  "receptive_field input_data k l =
     (case (size5 input_data, l) of
        ((bs, ch, d, h, w), (b, z, y, x)) \<Rightarrow>
          [at5 input_data (b, c, z + kz, y + ky, x + kx).
             c \<leftarrow> [0..<ch], kz \<leftarrow> [0..<k], ky \<leftarrow> [0..<k], kx \<leftarrow> [0..<k]])"

text \<open>
  An output location is registered when it is the output index that lines 171-176
  compute for some row of the coordinate matrix.
\<close>

definition registered ::
  "nat \<times> nat \<times> nat \<times> nat \<Rightarrow> int \<times> int \<times> int \<Rightarrow> int \<times> int \<times> int \<Rightarrow> coordinate list \<Rightarrow>
     nat \<times> nat \<times> nat \<times> nat \<Rightarrow> bool" where
  "registered dims mc st cs l = (Inr l \<in> set (map (slab_index dims mc st) cs))"

text \<open>The grid that the densification at the minimum coordinate \<open>(0, 0, 0)\<close> returns.\<close>

definition dense_grid :: "'a::zero sparse_tensor \<Rightarrow> 'a tensor5" where
  "dense_grid s = fst (dense s (0, 0, 0))"

text \<open>
  The patch matrix of the specification, as a float32 matrix: one row per output
  location, in row-major order of \<open>(batch, z, y, x)\<close>; the row of a registered location
  is its receptive field in the padded dense input, every element converted to
  float32, and every other row is zero.
\<close>

definition masked_patches ::
  "('a \<Rightarrow> 'b) \<Rightarrow> 'a::zero sparse_tensor \<Rightarrow> int \<Rightarrow> int \<Rightarrow> 'b::zero list list" where
  "masked_patches to_float32 s K p =
     (case dense s (0, 0, 0) of
        (d, mc, ts) \<Rightarrow>
          (case out_shape (pad_input p d) K 1 of (bs, ch, od, oh, ow) \<Rightarrow>
             map (\<lambda>r. if registered (bs, od, oh, ow) mc ts (coordinates s) (location (od, oh, ow) r)
                       then map to_float32
                              (receptive_field (pad_input p d) (nat K) (location (od, oh, ow) r))
                       else replicate (ch * (nat K * nat K * nat K)) 0)
                 [0..<bs * (od * oh * ow)]))"



text \<open>
  The local indices that the masking loop computes for a sparse tensor, and the test
  that each of them lies in \<open>[0, out_dim)\<close> on every spatial axis, for the output extents
  of a kernel size and a padding.
\<close>

definition mask_indices :: "'a::zero sparse_tensor \<Rightarrow> coordinate list" where
  "mask_indices s =
     (case dense s (0, 0, 0) of
        (d, mc, ts) \<Rightarrow> map (local_index mc ts) (coordinates s))"

definition index_in_bounds :: "nat \<times> nat \<times> nat \<times> nat \<times> nat \<Rightarrow> coordinate \<Rightarrow> bool" where
  "index_in_bounds sh l =
     (case (sh, l) of
        ((bs, ch, od, oh, ow), (b, z, y, x)) \<Rightarrow>
          0 \<le> z \<and> z < int od \<and> 0 \<le> y \<and> y < int oh \<and> 0 \<le> x \<and> x < int ow)"




section \<open>The export hook\<close>

text \<open>
  Lines 185-196, \<^verbatim>\<open>in_hook\<close>: for every input of the layer the hook densifies the input
  (for the log line) and, when the stride of the layer is 1, calls \<^verbatim>\<open>im2col_3d\<close> with
  the padding \<^verbatim>\<open>kernel_size // 2\<close> and saves the matrix.  The result is the list of the
  saved matrices, or the first exception.
\<close>

fun in_hook ::
  "('a \<Rightarrow> 'b) \<Rightarrow> 'a::zero sparse_tensor list \<Rightarrow> int \<Rightarrow> int \<Rightarrow> error + 'b::zero list list list" where
  "in_hook to_float32 [] kernel_size stride = Inr []"
| "in_hook to_float32 (x # rest) kernel_size stride =
     (case dense x (0, 0, 0) of
        (input_dense, min_coordinate, tstride) \<Rightarrow>
          if stride = 1
          then (case im2col_3d to_float32 x kernel_size stride (kernel_size div 2) of
                  Inl e \<Rightarrow> Inl e
                | Inr col \<Rightarrow>
                    (case in_hook to_float32 rest kernel_size stride of
                       Inl e \<Rightarrow> Inl e
                     | Inr saved \<Rightarrow> Inr (col # saved)))
          else in_hook to_float32 rest kernel_size stride)"

section \<open>The weight export\<close>

text \<open>
  A contiguous tensor of any rank: its shape and its elements in row-major order.
\<close>

record 'a tensor =
  shape :: "nat list"
  data :: "'a list"

text \<open>
  \<^verbatim>\<open>t.transpose(0, 1).contiguous()\<close> on a tensor of shape \<open>a # b # rest\<close>: position
  \<open>j\<close> of the result, the index \<open>(bi, ai, ri)\<close> of shape \<open>(b, a, prod rest)\<close>, holds the
  element at the index \<open>(ai, bi, ri)\<close> of the source.  A tensor with fewer than two
  axes has no axis 1.
\<close>

definition transpose01_source :: "nat \<Rightarrow> nat \<Rightarrow> nat \<Rightarrow> nat \<Rightarrow> nat" where
  "transpose01_source a b r j = ((j div r) mod a * b + (j div r) div a) * r + j mod r"

definition transpose01 :: "'a tensor \<Rightarrow> error + 'a tensor" where
  "transpose01 t =
     (case shape t of
        a # b # rest \<Rightarrow>
          Inr \<lparr>shape = b # a # rest,
               data = map (\<lambda>j. data t ! transpose01_source a b (prod_list rest) j)
                          [0..<b * a * prod_list rest]\<rparr>
      | _ \<Rightarrow> Inl IndexError)"

text \<open>
  \<^verbatim>\<open>t.view(shape)\<close> keeps the elements and needs the same number of them;
  \<^verbatim>\<open>t.view(-1, k)\<close> infers the first size, which needs \<open>k\<close> positive and a divisor of
  the number of elements.
\<close>

definition view :: "'a tensor \<Rightarrow> nat list \<Rightarrow> error + 'a tensor" where
  "view t sh =
     (if prod_list sh = length (data t) then Inr \<lparr>shape = sh, data = data t\<rparr>
      else Inl RuntimeError)"

definition view_rows :: "'a tensor \<Rightarrow> nat \<Rightarrow> error + 'a tensor" where
  "view_rows t k =
     (if 0 < k \<and> length (data t) mod k = 0
      then Inr \<lparr>shape = [length (data t) div k, k], data = data t\<rparr>
      else Inl RuntimeError)"

text \<open>
  Lines 234-236: \<^verbatim>\<open>weight = m.kernel.detach().transpose(0, 1).contiguous()\<close>,
  \<^verbatim>\<open>K = weight.shape[-1]\<close>, \<^verbatim>\<open>weight = weight.view(-1, K)\<close>.
\<close>

definition export_weight :: "'a tensor \<Rightarrow> error + 'a tensor" where
  "export_weight m_kernel =
     (case transpose01 m_kernel of
        Inl e \<Rightarrow> Inl e
      | Inr weight \<Rightarrow> view_rows weight (last (shape weight)))"

text \<open>
  The way back, for a kernel of known shape: view the matrix with the transposed
  shape and swap the first two axes again.
\<close>

definition restore_weight :: "nat list \<Rightarrow> 'a tensor \<Rightarrow> error + 'a tensor" where
  "restore_weight kernel_shape weight =
     (case kernel_shape of
        a # b # rest \<Rightarrow>
          (case view weight (b # a # rest) of
             Inl e \<Rightarrow> Inl e
           | Inr w \<Rightarrow> transpose01 w)
      | _ \<Rightarrow> Inl IndexError)"

section \<open>Colour normalisation\<close>

text \<open>
  Lines 111-122.  \<^verbatim>\<open>color /= 255\<close> and \<^verbatim>\<open>color -= 0.5\<close> write into the storage of the
  tensor the caller passed, so the tensors live in a store indexed by address and the
  function returns the new store with its result.  The arithmetic is that of the
  element type, of which nothing is assumed; \<^verbatim>\<open>color.float()\<close> is the conversion
  \<open>to_float\<close> of every element.
\<close>

type_synonym 'a heap = "nat \<Rightarrow> 'a list"

definition normalize_color ::
  "('a \<Rightarrow> 'b) \<Rightarrow> 'a::{inverse,minus,numeral} heap \<Rightarrow> nat \<Rightarrow> bool \<Rightarrow> 'b list \<times> 'a heap" where
  "normalize_color to_float h color is_color_in_range_0_255 =
     (let h1 = (if is_color_in_range_0_255 then h(color := map (\<lambda>v. v / 255) (h color)) else h);
          h2 = h1(color := map (\<lambda>v. v - 1 / 2) (h1 color))
      in (map to_float (h2 color), h2))"

section \<open>The conversion to float32 of a whole number\<close>

text \<open>
  The float32 value of a tensor element that holds the whole number \<open>n\<close> (an element
  of a float64 tensor, or of an integer tensor).  A float32 has a significand of 24
  bits: a whole number of at most 24 bits is kept, and a longer one, of \<open>24 + k\<close> bits,
  becomes the nearest multiple of \<open>2\<^sup>k\<close>, the even one of two nearest.  Magnitudes from
  \<open>2 ^ 127\<close> on, some of which become infinite, are not meant.
\<close>

definition round_half_even :: "int \<Rightarrow> nat \<Rightarrow> int" where
  "round_half_even n k =
     (let q = n div 2 ^ k; r = n mod 2 ^ k
      in if 2 * r < 2 ^ k then q
         else if 2 ^ k < 2 * r then q + 1
         else if even q then q else q + 1)"

definition float32_of_int :: "int \<Rightarrow> int" where
  "float32_of_int n =
     (let k = nat (bitlen \<bar>n\<bar> - 24) in sgn n * (round_half_even \<bar>n\<bar> k * 2 ^ k))"

section \<open>Example tensors\<close>

text \<open>
  One voxel at the origin; the two voxels of the specification's test, at \<open>(0, 0, 0)\<close>
  and \<open>(2, 2, 2)\<close> of batch 0, with one channel; the same two voxels with the rows
  in another order and one of them twice; two voxels of two channels in two batches, on
  a grid of extents 1, 2 and 3; one coordinate twice, with two feature values; and a
  voxel below the origin next to a voxel above it.
\<close>

definition one_voxel :: "'a \<Rightarrow> 'a sparse_tensor" where
  "one_voxel a = \<lparr> coordinates = [(0, 0, 0, 0)], features = [[a]], tensor_stride = (1, 1, 1) \<rparr>"

definition two_voxel :: "'a \<Rightarrow> 'a \<Rightarrow> 'a sparse_tensor" where
  "two_voxel a b = \<lparr> coordinates = [(0, 0, 0, 0), (0, 2, 2, 2)], features = [[a], [b]],
                     tensor_stride = (1, 1, 1) \<rparr>"


definition two_batches :: "'a \<Rightarrow> 'a \<Rightarrow> 'a \<Rightarrow> 'a \<Rightarrow> 'a sparse_tensor" where
  "two_batches a b c d =
     \<lparr> coordinates = [(0, 0, 0, 0), (1, 0, 1, 2)], features = [[a, b], [c, d]],
       tensor_stride = (1, 1, 1) \<rparr>"


definition below_origin :: "'a \<Rightarrow> 'a \<Rightarrow> 'a sparse_tensor" where
  "below_origin a b = \<lparr> coordinates = [(0, - 1, 0, 0), (0, 2, 0, 0)], features = [[a], [b]],
                        tensor_stride = (1, 1, 1) \<rparr>"

section \<open>The loops in closed form\<close>

lemma assign_slab_at:
  "assign_slab cv inp st z y x cu (b, c, kz, ky, kx, oz, oy, ox) =
     (if kz = z \<and> ky = y \<and> kx = x
      then cv (at5 inp (b, c, z + st * oz, y + st * oy, x + st * ox))
      else cu (b, c, kz, ky, kx, oz, oy, ox))"
  by (simp add: assign_slab_def)

lemma fold_assign_x:
  "fold (\<lambda>x. assign_slab cv inp st z y x) [0..<n] cu (b, c, kz, ky, kx, oz, oy, ox) =
     (if kz = z \<and> ky = y \<and> kx < n
      then cv (at5 inp (b, c, kz + st * oz, ky + st * oy, kx + st * ox))
      else cu (b, c, kz, ky, kx, oz, oy, ox))"
proof (induction n arbitrary: kz ky kx)
  case 0
  show ?case by simp
next
  case (Suc n)
  show ?case
    by (auto simp add: assign_slab_at Suc.IH less_Suc_eq)
qed

lemma fold_assign_y:
  "fold (\<lambda>y. fold (\<lambda>x. assign_slab cv inp st z y x) [0..<k]) [0..<n] cu (b, c, kz, ky, kx, oz, oy, ox) =
     (if kz = z \<and> ky < n \<and> kx < k
      then cv (at5 inp (b, c, kz + st * oz, ky + st * oy, kx + st * ox))
      else cu (b, c, kz, ky, kx, oz, oy, ox))"
proof (induction n arbitrary: kz ky kx)
  case 0
  show ?case by simp
next
  case (Suc n)
  show ?case
    by (auto simp add: fold_assign_x Suc.IH less_Suc_eq)
qed

lemma fold_assign_z:
  "fold (\<lambda>z. fold (\<lambda>y. fold (\<lambda>x. assign_slab cv inp st z y x) [0..<k]) [0..<k]) [0..<n] cu (b, c, kz, ky, kx, oz, oy, ox) =
     (if kz < n \<and> ky < k \<and> kx < k
      then cv (at5 inp (b, c, kz + st * oz, ky + st * oy, kx + st * ox))
      else cu (b, c, kz, ky, kx, oz, oy, ox))"
proof (induction n arbitrary: kz ky kx)
  case 0
  show ?case by simp
next
  case (Suc n)
  show ?case
    by (auto simp add: fold_assign_y Suc.IH less_Suc_eq)
qed

lemma fill_patches_at:
  "fill_patches cv inp k st (b, c, kz, ky, kx, oz, oy, ox) =
     (if kz < k \<and> ky < k \<and> kx < k
      then cv (at5 inp (b, c, kz + st * oz, ky + st * oy, kx + st * ox))
      else 0)"
  by (simp add: fill_patches_def fold_assign_z)

lemma slab_index_error:
  "slab_index d mc st c = Inl e \<Longrightarrow>
     e = (if fst st = 0 \<or> fst (snd st) = 0 \<or> snd (snd st) = 0 then RuntimeError else IndexError)"
  by (cases d; cases st; cases "local_index mc st c")
     (auto simp: slab_index_def split: if_splits sum.splits prod.splits)

lemma copy_slab_at:
  "copy_slab cu l col (b, c, kz, ky, kx, oz, oy, ox) =
     (if (b, oz, oy, ox) = l then cu (b, c, kz, ky, kx, oz, oy, ox)
      else col (b, c, kz, ky, kx, oz, oy, ox))"
  by (simp add: copy_slab_def)

lemma enforce_sparsity_at:
  "enforce_sparsity d mc st cu cs col0 = Inr col \<Longrightarrow>
     col (b, c, kz, ky, kx, oz, oy, ox) =
       (if \<exists>crd \<in> set cs. slab_index d mc st crd = Inr (b, oz, oy, ox)
        then cu (b, c, kz, ky, kx, oz, oy, ox)
        else col0 (b, c, kz, ky, kx, oz, oy, ox))"
proof (induction cs arbitrary: col0)
  case Nil
  then show ?case by simp
next
  case (Cons crd cs)
  from Cons.prems obtain l where l: "slab_index d mc st crd = Inr l"
    and rest: "enforce_sparsity d mc st cu cs (copy_slab cu l col0) = Inr col"
    by (auto split: sum.splits)
  show ?case
    using Cons.IH [OF rest] l by (auto simp: copy_slab_at)
qed

lemma enforce_sparsity_Inl:
  "enforce_sparsity d mc st cu cs col0 = Inl e \<Longrightarrow> \<exists>crd \<in> set cs. slab_index d mc st crd = Inl e"
  by (induction cs arbitrary: col0) (auto split: sum.splits)

lemma enforce_sparsity_Inr:
  "(\<exists>col. enforce_sparsity d mc st cu cs col0 = Inr col) =
     (\<forall>crd \<in> set cs. \<exists>l. slab_index d mc st crd = Inr l)"
  by (induction cs arbitrary: col0) (auto split: sum.splits)


section \<open>Flattening in row-major order\<close>

lemma map_div_mod:
  "map (\<lambda>j. g (j div n) (j mod n)) [0..<m * n] = concat (map (\<lambda>i. map (g i) [0..<n]) [0..<m])"
proof (induction m)
  case 0
  show ?case by simp
next
  case (Suc m)
  have "[0..<m * n + n] = [0..<m * n] @ [m * n..<m * n + n]"
    by (rule upt_add_eq_append) simp
  moreover have "Suc m * n = m * n + n"
    by simp
  ultimately have split: "[0..<Suc m * n] = [0..<m * n] @ [m * n..<m * n + n]"
    by (simp only:)
  have block: "map (\<lambda>j. g (j div n) (j mod n)) [m * n..<m * n + n] = map (g m) [0..<n]"
  proof (rule nth_equalityI)
    show "length (map (\<lambda>j. g (j div n) (j mod n)) [m * n..<m * n + n]) = length (map (g m) [0..<n])"
      by simp
  next
    fix i
    assume "i < length (map (\<lambda>j. g (j div n) (j mod n)) [m * n..<m * n + n])"
    then have i: "i < n" by simp
    then have "(m * n + i) div n = m" and "(m * n + i) mod n = i"
      by simp_all
    with i show "map (\<lambda>j. g (j div n) (j mod n)) [m * n..<m * n + n] ! i = map (g m) [0..<n] ! i"
      by simp
  qed
  have "map (\<lambda>j. g (j div n) (j mod n)) [0..<Suc m * n] =
      map (\<lambda>j. g (j div n) (j mod n)) [0..<m * n] @ map (g m) [0..<n]"
    by (simp only: split map_append block)
  also have "\<dots> = concat (map (\<lambda>i. map (g i) [0..<n]) [0..<m]) @ map (g m) [0..<n]"
    by (simp only: Suc.IH)
  also have "\<dots> = concat (map (\<lambda>i. map (g i) [0..<n]) [0..<Suc m])"
    by simp
  finally show ?case .
qed

lemma unravel3_map:
  "map (\<lambda>i. H (unravel3 n2 n3 i)) [0..<n1 * (n2 * n3)] =
     concat (map (\<lambda>a. concat (map (\<lambda>b. map (\<lambda>c. H (a, b, c)) [0..<n3]) [0..<n2])) [0..<n1])"
proof -
  have inner: "map (\<lambda>i. H (a, i div n3, i mod n3)) [0..<n2 * n3] =
      concat (map (\<lambda>b. map (\<lambda>c. H (a, b, c)) [0..<n3]) [0..<n2])" for a
    by (rule map_div_mod [where g = "\<lambda>b c. H (a, b, c)"])
  have "map (\<lambda>i. H (unravel3 n2 n3 i)) [0..<n1 * (n2 * n3)] =
      concat (map (\<lambda>a. map (\<lambda>i. H (a, i div n3, i mod n3)) [0..<n2 * n3]) [0..<n1])"
    unfolding unravel3_def
    by (rule map_div_mod [where g = "\<lambda>a i. H (a, i div n3, i mod n3)"])
  then show ?thesis by (simp add: inner)
qed

lemma flatten_col_length:
  "flatten_col (bs, ch, od, oh, ow) k col = Inr m \<Longrightarrow> length m = bs * (od * oh * ow)"
  by (auto simp: flatten_col_def split: if_splits)

lemma flatten_col_row:
  assumes "flatten_col (bs, ch, od, oh, ow) k col = Inr m" and "r < bs * (od * oh * ow)"
    and "location (od, oh, ow) r = (b, oz, oy, ox)"
  shows "m ! r = [col (b, c, kz, ky, kx, oz, oy, ox).
                    c \<leftarrow> [0..<ch], kz \<leftarrow> [0..<k], ky \<leftarrow> [0..<k], kx \<leftarrow> [0..<k]]"
proof -
  have inner: "map (\<lambda>i. case unravel3 k k i of
                   (kz, ky, kx) \<Rightarrow> col (b, c, kz, ky, kx, oz, oy, ox)) [0..<k * k * k] =
      concat (map (\<lambda>kz. concat (map (\<lambda>ky. map (\<lambda>kx. col (b, c, kz, ky, kx, oz, oy, ox))
                                            [0..<k]) [0..<k])) [0..<k])" for c
    using unravel3_map [where H = "\<lambda>(kz, ky, kx). col (b, c, kz, ky, kx, oz, oy, ox)"
        and ?n1.0 = k and ?n2.0 = k and ?n3.0 = k]
    by (simp add: mult.assoc)
  have "m ! r = map (\<lambda>j. case unravel3 k k (j mod (k * k * k)) of
                       (kz, ky, kx) \<Rightarrow> col (b, j div (k * k * k), kz, ky, kx, oz, oy, ox))
                 [0..<ch * (k * k * k)]"
    using assms by (auto simp: flatten_col_def split: if_splits)
  also have "\<dots> = concat (map (\<lambda>c. map (\<lambda>i. case unravel3 k k i of
                       (kz, ky, kx) \<Rightarrow> col (b, c, kz, ky, kx, oz, oy, ox)) [0..<k * k * k]) [0..<ch])"
    by (rule map_div_mod [where g = "\<lambda>c i. case unravel3 k k i of
                       (kz, ky, kx) \<Rightarrow> col (b, c, kz, ky, kx, oz, oy, ox)"])
  also have "\<dots> = [col (b, c, kz, ky, kx, oz, oy, ox).
                    c \<leftarrow> [0..<ch], kz \<leftarrow> [0..<k], ky \<leftarrow> [0..<k], kx \<leftarrow> [0..<k]]"
    by (simp only: inner)
  finally show ?thesis .
qed

lemma flatten_col_rows:
  assumes "flatten_col (bs, ch, od, oh, ow) k col = Inr m"
  shows "m = [[col (b, c, kz, ky, kx, oz, oy, ox).
                 c \<leftarrow> [0..<ch], kz \<leftarrow> [0..<k], ky \<leftarrow> [0..<k], kx \<leftarrow> [0..<k]].
              b \<leftarrow> [0..<bs], oz \<leftarrow> [0..<od], oy \<leftarrow> [0..<oh], ox \<leftarrow> [0..<ow]]"
proof -
  define row where "row = (\<lambda>l. case l of (b, oz, oy, ox) \<Rightarrow>
     [col (b, c, kz, ky, kx, oz, oy, ox).
        c \<leftarrow> [0..<ch], kz \<leftarrow> [0..<k], ky \<leftarrow> [0..<k], kx \<leftarrow> [0..<k]])"
  have len: "length m = bs * (od * oh * ow)"
    using assms by (rule flatten_col_length)
  have "m = map (\<lambda>r. row (location (od, oh, ow) r)) [0..<bs * (od * oh * ow)]"
  proof (rule nth_equalityI)
    show "length m = length (map (\<lambda>r. row (location (od, oh, ow) r)) [0..<bs * (od * oh * ow)])"
      using len by simp
  next
    fix r assume "r < length m"
    then have r: "r < bs * (od * oh * ow)" using len by simp
    obtain b oz oy ox where l: "location (od, oh, ow) r = (b, oz, oy, ox)"
      by (cases "location (od, oh, ow) r")
    have "m ! r = row (location (od, oh, ow) r)"
      unfolding l row_def using flatten_col_row [OF assms r l] by simp
    then show "m ! r = map (\<lambda>r. row (location (od, oh, ow) r)) [0..<bs * (od * oh * ow)] ! r"
      using r by simp
  qed
  also have "\<dots> = map (\<lambda>r. row (r div (od * oh * ow), unravel3 oh ow (r mod (od * oh * ow))))
                      [0..<bs * (od * oh * ow)]"
    by (simp add: location_def)
  also have "\<dots> = concat (map (\<lambda>b. map (\<lambda>i. row (b, unravel3 oh ow i)) [0..<od * oh * ow]) [0..<bs])"
    by (rule map_div_mod [where g = "\<lambda>b i. row (b, unravel3 oh ow i)"])
  also have "\<dots> = concat (map (\<lambda>b. concat (map (\<lambda>oz. concat (map (\<lambda>oy.
                       map (\<lambda>ox. row (b, oz, oy, ox)) [0..<ow]) [0..<oh])) [0..<od])) [0..<bs])"
  proof -
    have "map (\<lambda>i. row (b, unravel3 oh ow i)) [0..<od * oh * ow] =
        concat (map (\<lambda>oz. concat (map (\<lambda>oy. map (\<lambda>ox. row (b, oz, oy, ox)) [0..<ow])
                                       [0..<oh])) [0..<od])" for b
      using unravel3_map [where H = "\<lambda>l. row (b, l)" and ?n1.0 = od and ?n2.0 = oh and ?n3.0 = ow]
      by (simp add: mult.assoc)
    then show ?thesis by (simp only:)
  qed
  finally show ?thesis
    by (simp add: row_def)
qed

section \<open>The rows of the patch matrix\<close>

lemma registered_iff:
  "registered dims mc st cs l = (\<exists>crd \<in> set cs. slab_index dims mc st crd = Inr l)"
  unfolding registered_def set_map image_iff by metis

lemma concat_replicate:
  "concat (replicate m (replicate n x)) = replicate (m * n) x"
  by (induction m) (simp_all add: replicate_add)

lemma patch_cong:
  assumes "\<And>c kz ky kx. c < ch \<Longrightarrow> kz < k \<Longrightarrow> ky < k \<Longrightarrow> kx < k \<Longrightarrow> f c kz ky kx = g c kz ky kx"
  shows "[f c kz ky kx. c \<leftarrow> [0..<ch], kz \<leftarrow> [0..<k], ky \<leftarrow> [0..<k], kx \<leftarrow> [0..<k::nat]] =
         [g c kz ky kx. c \<leftarrow> [0..<ch::nat], kz \<leftarrow> [0..<k], ky \<leftarrow> [0..<k], kx \<leftarrow> [0..<k]]"
  by (intro arg_cong [where f = concat] map_cong refl) (simp add: assms)

lemma zero_patch:
  "[0::'a::zero. c \<leftarrow> [0..<ch], kz \<leftarrow> [0..<k], ky \<leftarrow> [0..<k], kx \<leftarrow> [0..<k::nat]] =
     replicate (ch * (k * k * k)) 0"
  by (simp add: map_replicate_const concat_replicate mult.assoc)

lemma im2col_3d_Inr:
  assumes "im2col_3d cv s K stride p = Inr m" and "dense s (0, 0, 0) = (d, mc, ts)"
    and "out_shape (pad_input p d) K stride = (bs, ch, od, oh, ow)"
  shows "stride = 1 \<and> 0 \<le> K \<and>
     (\<exists>col. enforce_sparsity (bs, od, oh, ow) mc ts (fill_patches cv (pad_input p d) (nat K) 1)
               (coordinates s) (\<lambda>_. 0) = Inr col \<and>
            flatten_col (bs, ch, od, oh, ow) (nat K) col = Inr m)"
proof -
  obtain bs' ch' dd hh ww where sz: "size5 (pad_input p d) = (bs', ch', dd, hh, ww)"
    by (cases "size5 (pad_input p d)")
  have st: "stride = 1"
    using assms(1) by (auto simp: im2col_3d_def split: if_splits)
  from assms(3) sz have dims: "bs' = bs" "ch' = ch" "od = nat (out_dim dd K 1)"
      "oh = nat (out_dim hh K 1)" "ow = nat (out_dim ww K 1)"
    by (simp_all add: out_shape_def st)
  show ?thesis
    using assms(1,2) sz dims st
    by (auto simp: im2col_3d_def Let_def split: if_splits sum.splits)
qed

lemma im2col_3d_length:
  assumes "im2col_3d cv s K stride p = Inr m" and "dense s (0, 0, 0) = (d, mc, ts)"
    and "out_shape (pad_input p d) K stride = (bs, ch, od, oh, ow)"
  shows "length m = bs * (od * oh * ow)"
  using im2col_3d_Inr [OF assms] flatten_col_length by blast

lemma im2col_3d_row:
  assumes "im2col_3d cv s K stride p = Inr m" and "dense s (0, 0, 0) = (d, mc, ts)"
    and "out_shape (pad_input p d) K stride = (bs, ch, od, oh, ow)"
    and "r < length m"
  shows "m ! r =
     (if registered (bs, od, oh, ow) mc ts (coordinates s) (location (od, oh, ow) r)
      then map cv (receptive_field (pad_input p d) (nat K) (location (od, oh, ow) r))
      else replicate (ch * (nat K * nat K * nat K)) 0)"
proof -
  from im2col_3d_Inr [OF assms(1-3)] obtain col where st: "stride = 1"
    and col: "enforce_sparsity (bs, od, oh, ow) mc ts (fill_patches cv (pad_input p d) (nat K) 1)
               (coordinates s) (\<lambda>_. 0) = Inr col"
    and m: "flatten_col (bs, ch, od, oh, ow) (nat K) col = Inr m"
    by blast
  have r: "r < bs * (od * oh * ow)"
    using assms(4) flatten_col_length [OF m] by simp
  obtain b oz oy ox where l: "location (od, oh, ow) r = (b, oz, oy, ox)"
    by (cases "location (od, oh, ow) r")
  obtain bs' ch' dd hh ww where sz: "size5 (pad_input p d) = (bs', ch', dd, hh, ww)"
    by (cases "size5 (pad_input p d)")
  with assms(3) have ch: "ch' = ch" by (simp add: out_shape_def)
  have row: "m ! r = [col (b, c, kz, ky, kx, oz, oy, ox).
      c \<leftarrow> [0..<ch], kz \<leftarrow> [0..<nat K], ky \<leftarrow> [0..<nat K], kx \<leftarrow> [0..<nat K]]"
    by (rule flatten_col_row [OF m r l])
  show ?thesis
  proof (cases "registered (bs, od, oh, ow) mc ts (coordinates s) (b, oz, oy, ox)")
    case True
    then have "col (b, c, kz, ky, kx, oz, oy, ox) =
        fill_patches cv (pad_input p d) (nat K) 1 (b, c, kz, ky, kx, oz, oy, ox)" for c kz ky kx
      using enforce_sparsity_at [OF col] by (simp add: registered_iff)
    then have "m ! r = [cv (at5 (pad_input p d) (b, c, oz + kz, oy + ky, ox + kx)).
      c \<leftarrow> [0..<ch], kz \<leftarrow> [0..<nat K], ky \<leftarrow> [0..<nat K], kx \<leftarrow> [0..<nat K]]"
      unfolding row by (intro patch_cong) (simp add: fill_patches_at add.commute)
    with True l sz ch show ?thesis
      by (simp add: receptive_field_def map_concat o_def)
  next
    case False
    then have "col (b, c, kz, ky, kx, oz, oy, ox) = 0" for c kz ky kx
      using enforce_sparsity_at [OF col] by (simp add: registered_iff)
    then have "m ! r = replicate (ch * (nat K * nat K * nat K)) 0"
      unfolding row by (simp only: zero_patch)
    with False l show ?thesis by simp
  qed
qed

section \<open>The errors of the patch extractor\<close>

lemma flatten_col_Inl: "flatten_col dims k col = Inl e \<Longrightarrow> e = RuntimeError"
  by (cases dims) (auto simp: flatten_col_def split: if_splits)

lemma enforce_sparsity_error:
  "enforce_sparsity d mc st cu cs col0 = Inl e \<Longrightarrow> e = RuntimeError \<or> e = IndexError"
  using enforce_sparsity_Inl [of d mc st cu cs col0 e] slab_index_error [of d mc st]
  by (metis (full_types))

lemma im2col_3d_error:
  assumes "im2col_3d cv s K 1 p = Inl e"
  shows "e = RuntimeError \<or> e = IndexError"
proof -
  obtain d mc ts where r: "dense s (0, 0, 0) = (d, mc, ts)"
    by (cases "dense s (0, 0, 0)")
  obtain bs ch dd hh ww where sz: "size5 (pad_input p d) = (bs, ch, dd, hh, ww)"
    by (cases "size5 (pad_input p d)")
  show ?thesis
    using assms r sz
    by (auto simp: im2col_3d_def Let_def split: if_splits sum.splits
             dest: enforce_sparsity_error flatten_col_Inl)
qed

section \<open>Output extents\<close>

lemma ceil_div_ceiling: "ceil_div a s = \<lceil>real_of_int a / real_of_int s\<rceil>"
  by (simp add: ceil_div_def ceiling_divide_eq_div)

lemma out_dim_ceiling:
  "out_dim n K stride = \<lceil>(real n - real_of_int K + 1) / real_of_int stride\<rceil>"
  by (simp add: out_dim_def ceil_div_ceiling)

lemma flatten_col_row_length:
  "flatten_col (bs, ch, od, oh, ow) k col = Inr m \<Longrightarrow> row \<in> set m \<Longrightarrow> length row = ch * (k * k * k)"
  by (auto simp: flatten_col_def split: if_splits)

lemma im2col_3d_out_dim:
  assumes "im2col_3d cv s K stride p = Inr m" and "dense s (0, 0, 0) = (d, mc, ts)"
    and "size5 (pad_input p d) = (B, C, D, H, W)"
  shows "0 \<le> out_dim D K stride \<and> 0 \<le> out_dim H K stride \<and> 0 \<le> out_dim W K stride"
  using assms by (auto simp: im2col_3d_def Let_def split: if_splits)

section \<open>The dense grid holds every coordinate\<close>

lemma fold_max_ge: "(a::int) \<le> fold max xs a"
  by (induction xs arbitrary: a) (auto intro: order_trans [OF max.cobounded2])

lemma fold_max_mem: "x \<in> set xs \<Longrightarrow> (x::int) \<le> fold max xs a"
proof (induction xs arbitrary: a)
  case Nil
  then show ?case by simp
next
  case (Cons y ys)
  show ?case
  proof (cases "x = y")
    case True
    have "max y a \<le> fold max ys (max y a)" by (rule fold_max_ge)
    with True show ?thesis by simp
  next
    case False
    with Cons show ?thesis by simp
  qed
qed

lemma extent_gt: "i \<in> set is \<Longrightarrow> i < int (extent is)"
  using fold_max_mem [of i "is" 0] by (simp add: extent_def)

lemma extent_pos: "0 < extent is"
  by (simp add: extent_def)

lemma dense_returns:
  assumes "dense s mc = (d, mc', ts)"
  shows "mc' = mc" and "ts = tensor_stride s"
  using assms by (auto simp: dense_def Let_def)

lemma dense_size_pos:
  assumes "dense s mc = (d, mc', ts)" and "size5 d = (bs, ch, dd, hh, ww)"
  shows "0 < bs \<and> 0 < dd \<and> 0 < hh \<and> 0 < ww"
  using assms by (auto simp: dense_def Let_def extent_pos)

lemma dense_local_index:
  assumes "dense s mc = (d, mc', ts)" and "size5 d = (bs, ch, dd, hh, ww)"
    and "crd \<in> set (coordinates s)" and "local_index mc' ts crd = (b, z, y, x)"
  shows "b < int bs \<and> z < int dd \<and> y < int hh \<and> x < int ww"
proof -
  let ?locals = "map (local_index mc (tensor_stride s)) (coordinates s)"
  have eq: "mc' = mc" "ts = tensor_stride s"
    using dense_returns [OF assms(1)] by simp_all
  have sz: "size5 d = (extent (map fst ?locals), nchannels s, extent (map (fst \<circ> snd) ?locals),
        extent (map (fst \<circ> snd \<circ> snd) ?locals), extent (map (snd \<circ> snd \<circ> snd) ?locals))"
    using assms(1) by (auto simp: dense_def Let_def)
  have mem: "(b, z, y, x) \<in> set ?locals"
    using assms(3,4) eq by force
  have proj: "f (b, z, y, x) \<in> set (map f ?locals)" for f :: "coordinate \<Rightarrow> int"
    using mem unfolding set_map by (rule imageI)
  have "b \<in> set (map fst ?locals)" "z \<in> set (map (fst \<circ> snd) ?locals)"
    "y \<in> set (map (fst \<circ> snd \<circ> snd) ?locals)" "x \<in> set (map (snd \<circ> snd \<circ> snd) ?locals)"
    using proj [of fst] proj [of "fst \<circ> snd"] proj [of "fst \<circ> snd \<circ> snd"]
      proj [of "snd \<circ> snd \<circ> snd"] by simp_all
  then show ?thesis
    using sz assms(2) extent_gt by auto
qed

lemma local_index_nonneg:
  assumes "in_grid crd" and "0 < fst ts \<and> 0 < fst (snd ts) \<and> 0 < snd (snd ts)"
  shows "in_grid (local_index (0, 0, 0) ts crd)"
  using assms
  by (cases ts; cases crd) (auto simp: in_grid_def local_index_def pos_imp_zdiv_nonneg_iff)

lemma slab_index_in_range:
  assumes "fst ts \<noteq> 0 \<and> fst (snd ts) \<noteq> 0 \<and> snd (snd ts) \<noteq> 0"
    and "local_index mc ts crd = (b, z, y, x)"
    and "0 \<le> b \<and> b < int bs" and "0 \<le> z \<and> z < int od" and "0 \<le> y \<and> y < int oh"
    and "0 \<le> x \<and> x < int ow"
  shows "slab_index (bs, od, oh, ow) mc ts crd = Inr (nat b, nat z, nat y, nat x)"
  using assms by (cases ts) (auto simp: slab_index_def tensor_index_def)

lemma pad_input_size:
  assumes "size5 d = (bs, ch, dd, hh, ww)"
  shows "size5 (pad_input p d) =
     (if p > 0 then (bs, ch, dd + 2 * nat p, hh + 2 * nat p, ww + 2 * nat p)
      else (bs, ch, dd, hh, ww))"
  using assms by (simp add: pad_input_def pad3d_def)

lemma im2col_3d_total:
  assumes d: "dense s (0, 0, 0) = (d, mc, ts)" and sz: "size5 d = (bs, ch, dd, hh, ww)"
    and psz: "size5 (pad_input p d) = (B, C, D, H, W)"
    and K: "0 \<le> K"
    and od: "int dd \<le> out_dim D K 1" and oh: "int hh \<le> out_dim H K 1"
    and ow: "int ww \<le> out_dim W K 1"
    and nz: "fst ts \<noteq> 0 \<and> fst (snd ts) \<noteq> 0 \<and> snd (snd ts) \<noteq> 0"
    and grid: "\<And>crd. crd \<in> set (coordinates s) \<Longrightarrow> in_grid (local_index mc ts crd)"
  shows "\<exists>m. im2col_3d cv s K 1 p = Inr m"
proof -
  have B: "B = bs"
    using pad_input_size [OF sz, of p] psz by (simp split: if_splits)
  have pos: "0 < bs \<and> 0 < dd \<and> 0 < hh \<and> 0 < ww"
    by (rule dense_size_pos [OF d sz])
  let ?dims = "(B, nat (out_dim D K 1), nat (out_dim H K 1), nat (out_dim W K 1))"
  have "\<exists>l. slab_index ?dims mc ts crd = Inr l" if "crd \<in> set (coordinates s)" for crd
  proof -
    obtain b z y x where l: "local_index mc ts crd = (b, z, y, x)"
      by (cases "local_index mc ts crd")
    from grid [OF that] l have "0 \<le> b \<and> 0 \<le> z \<and> 0 \<le> y \<and> 0 \<le> x"
      by (simp add: in_grid_def)
    with dense_local_index [OF d sz that l] od oh ow B
    have "0 \<le> b \<and> b < int B" "0 \<le> z \<and> z < int (nat (out_dim D K 1))"
      "0 \<le> y \<and> y < int (nat (out_dim H K 1))" "0 \<le> x \<and> x < int (nat (out_dim W K 1))"
      by auto
    from slab_index_in_range [OF nz l this] show ?thesis by blast
  qed
  then obtain col where col: "enforce_sparsity ?dims mc ts (fill_patches cv (pad_input p d) (nat K) 1)
      (coordinates s) (\<lambda>_. 0) = Inr col"
    using enforce_sparsity_Inr by blast
  have nz: "B * (nat (out_dim D K 1) * nat (out_dim H K 1) * nat (out_dim W K 1)) \<noteq> 0"
    using pos od oh ow B by auto
  then obtain m where "flatten_col (B, C, nat (out_dim D K 1), nat (out_dim H K 1),
      nat (out_dim W K 1)) (nat K) col = Inr m"
    by (auto simp: flatten_col_def)
  then show ?thesis
    using d psz K od oh ow col pos by (auto simp: im2col_3d_def Let_def)
qed

lemma out_dim_odd_kernel:
  assumes "odd K" and "0 < K"
  shows "out_dim (n + 2 * nat (K div 2)) K 1 = int n"
proof -
  have "2 * (K div 2) = K - 1"
    using assms(1) by presburger
  moreover have "0 \<le> K div 2"
    using assms(2) by simp
  ultimately show ?thesis
    by (simp add: out_dim_def ceil_div_def)
qed

section \<open>The extractor computes the patch matrix of the specification\<close>

lemma im2col_3d_masked_patches:
  assumes "im2col_3d cv s K stride p = Inr m"
  shows "m = masked_patches cv s K p"
proof -
  obtain d mc ts where d: "dense s (0, 0, 0) = (d, mc, ts)"
    by (cases "dense s (0, 0, 0)")
  have st: "stride = 1"
    using assms by (auto simp: im2col_3d_def split: if_splits)
  obtain bs ch od oh ow where sh: "out_shape (pad_input p d) K stride = (bs, ch, od, oh, ow)"
    by (cases "out_shape (pad_input p d) K stride")
  have len: "length m = bs * (od * oh * ow)"
    by (rule im2col_3d_length [OF assms d sh])
  show ?thesis
  proof (rule nth_equalityI)
    show "length m = length (masked_patches cv s K p)"
      using len d sh st by (simp add: masked_patches_def)
  next
    fix r assume r: "r < length m"
    from im2col_3d_row [OF assms d sh r] r len d sh st
    show "m ! r = masked_patches cv s K p ! r"
      by (simp add: masked_patches_def)
  qed
qed

lemma dense_grid_eq: "dense s (0, 0, 0) = (dense_grid s, (0, 0, 0), tensor_stride s)"
  by (simp add: dense_grid_def dense_def Let_def)

lemma im2col_3d_value:
  assumes d: "dense s (0, 0, 0) = (d, mc, ts)"
    and psz: "size5 (pad_input p d) = (B, C, D, H, W)"
    and K: "0 \<le> K" and od: "0 < out_dim D K 1" and oh: "0 < out_dim H K 1"
    and ow: "0 < out_dim W K 1" and B: "0 < B"
    and rows: "list_all (\<lambda>crd. \<not> isl (slab_index (B, nat (out_dim D K 1), nat (out_dim H K 1),
                 nat (out_dim W K 1)) mc ts crd)) (coordinates s)"
  shows "im2col_3d cv s K 1 p = Inr (masked_patches cv s K p)"
proof -
  let ?dims = "(B, nat (out_dim D K 1), nat (out_dim H K 1), nat (out_dim W K 1))"
  have "\<forall>crd \<in> set (coordinates s). \<exists>l. slab_index ?dims mc ts crd = Inr l"
    using rows unfolding list_all_iff by (metis sum.collapse(2))
  then obtain col where col: "enforce_sparsity ?dims mc ts (fill_patches cv (pad_input p d) (nat K) 1)
      (coordinates s) (\<lambda>_. 0) = Inr col"
    using enforce_sparsity_Inr by blast
  have "B * (nat (out_dim D K 1) * nat (out_dim H K 1) * nat (out_dim W K 1)) \<noteq> 0"
    using od oh ow B by simp
  then obtain m where "flatten_col (B, C, nat (out_dim D K 1), nat (out_dim H K 1),
      nat (out_dim W K 1)) (nat K) col = Inr m"
    by (auto simp: flatten_col_def)
  then have m: "im2col_3d cv s K 1 p = Inr m"
    using d psz K od oh ow col by (auto simp: im2col_3d_def Let_def)
  from im2col_3d_masked_patches [OF m] m show ?thesis by simp
qed

section \<open>The densification depends on the set of entries\<close>












section \<open>The statements on the store compute the function\<close>

lemma assign_slab_run_update:
  assumes "cu < length \<tau>" and "inp < length \<tau>" and "\<tau> ! inp = Tensor5 d" and "inp \<noteq> cu"
  shows "assign_slab_run cv cu inp st z y x (\<tau>[cu := Tensor8 t]) =
     \<tau>[cu := Tensor8 (assign_slab cv d st z y x t)]"
  using assms by (simp add: assign_slab_run_def write8_def tensor5_at_def tensor8_at_def)

lemma fold_write8:
  assumes "\<And>x t. body x (\<tau>[cu := Tensor8 t]) = \<tau>[cu := Tensor8 (g x t)]"
  shows "fold body xs (\<tau>[cu := Tensor8 t]) = \<tau>[cu := Tensor8 (fold g xs t)]"
  by (induction xs arbitrary: t) (simp_all add: assms)

lemma fill_patches_run_update:
  assumes "cu < length \<tau>" and "inp < length \<tau>" and "\<tau> ! inp = Tensor5 d" and "inp \<noteq> cu"
  shows "fill_patches_run cv cu inp k st (\<tau>[cu := Tensor8 (\<lambda>_. 0)]) =
     \<tau>[cu := Tensor8 (fill_patches cv d k st)]"
  unfolding fill_patches_run_def fill_patches_def
  by (rule fold_write8)+ (rule assign_slab_run_update [OF assms])

lemma enforce_sparsity_run_update:
  assumes "a < length \<tau>" and "\<tau> ! a = Sparse s" and "cu < length \<tau>" and "\<tau> ! cu = Tensor8 tcu"
    and "col < length \<tau>" and "col \<noteq> cu" and "col \<noteq> a"
    and "\<forall>i \<in> set is. i < length (coordinates s)"
  shows "\<exists>t'. enforce_sparsity_run dims mc st a cu col is (\<tau>[col := Tensor8 t]) =
           (case enforce_sparsity dims mc st tcu (map ((!) (coordinates s)) is) t of
              Inl e \<Rightarrow> Some e | Inr t'' \<Rightarrow> None,
            \<tau>[col := Tensor8 t']) \<and>
         (\<forall>t''. enforce_sparsity dims mc st tcu (map ((!) (coordinates s)) is) t = Inr t'' \<longrightarrow>
                 t' = t'')"
  using assms(8)
proof (induction "is" arbitrary: t)
  case Nil
  show ?case by simp
next
  case (Cons i rest)
  have i: "i < length (coordinates s)" and rest: "\<forall>i \<in> set rest. i < length (coordinates s)"
    using Cons.prems by simp_all
  have sp: "sparse_at (\<tau>[col := Tensor8 t]) a = Some s"
    using assms(1,2,7) by (simp add: sparse_at_def)
  have cu: "tensor8_at (\<tau>[col := Tensor8 t]) cu = tcu"
    using assms(3,4,6) by (simp add: tensor8_at_def)
  have co: "tensor8_at (\<tau>[col := Tensor8 t]) col = t"
    using assms(5) by (simp add: tensor8_at_def)
  have wr: "write8 col t' (\<tau>[col := Tensor8 t]) = \<tau>[col := Tensor8 t']" for t'
    using assms(5) by (simp add: write8_def)
  show ?case
  proof (cases "slab_index dims mc st (coordinates s ! i)")
    case (Inl e)
    then show ?thesis
      using sp i by auto
  next
    case (Inr l)
    from Cons.IH [OF rest, of "copy_slab tcu l t"] Inr sp i cu co wr
    show ?thesis by simp
  qed
qed

lemma im2col_3d_run_refines:
  assumes "sparse_at \<sigma> a = Some s"
  shows "\<exists>r \<sigma>'. im2col_3d_run cv a K stride p \<sigma> = (r, \<sigma>') \<and>
           returned r \<sigma>' = im2col_3d cv s K stride p \<and>
           length \<sigma> \<le> length \<sigma>' \<and> length \<sigma>' \<le> length \<sigma> + 5 \<and>
           take (length \<sigma>) \<sigma>' = \<sigma> \<and>
           (\<forall>x. r = Inr x \<longrightarrow>
              x = length \<sigma> + (if 0 < p then 4 else 3) \<and> length \<sigma>' = Suc x \<and>
              (\<exists>m. matrix_at \<sigma>' x = Some m))"
proof (cases "stride = 1")
  case False
  then show ?thesis
    by (simp add: im2col_3d_run_def im2col_3d_def returned_def)
next
  case True
  have a: "a < length \<sigma>" and sa: "\<sigma> ! a = Sparse s"
    using assms by (auto simp: sparse_at_def split: if_splits object.splits)
  obtain d mc ts where d: "dense s (0, 0, 0) = (d, mc, ts)"
    by (cases "dense s (0, 0, 0)")
  define \<sigma>2 where "\<sigma>2 = (if p > 0 then \<sigma> @ [Tensor5 d, Tensor5 (pad3d (nat p) d)] else \<sigma> @ [Tensor5 d])"
  define inp where "inp = (if p > 0 then Suc (length \<sigma>) else length \<sigma>)"
  have pad: "(if p > 0
        then allocate (Tensor5 (pad3d (nat p) (tensor5_at (\<sigma> @ [Tensor5 d]) (length \<sigma>))))
               (\<sigma> @ [Tensor5 d])
        else (length \<sigma>, \<sigma> @ [Tensor5 d])) = (inp, \<sigma>2)"
    by (simp add: allocate_def tensor5_at_def inp_def \<sigma>2_def)
  have inp: "inp < length \<sigma>2" and inpd: "\<sigma>2 ! inp = Tensor5 (pad_input p d)"
    and t5: "tensor5_at \<sigma>2 inp = pad_input p d"
    by (simp_all add: inp_def \<sigma>2_def tensor5_at_def pad_input_def nth_append)
  have pre2: "length \<sigma> \<le> length \<sigma>2" "take (length \<sigma>) \<sigma>2 = \<sigma>"
    "length \<sigma>2 = length \<sigma> + (if 0 < p then 2 else 1)"
    by (simp_all add: \<sigma>2_def)
  obtain B C D H W where sz: "size5 (pad_input p d) = (B, C, D, H, W)"
    by (cases "size5 (pad_input p d)")
  show ?thesis
  proof (cases "K < 0 \<or> out_dim D K 1 < 0 \<or> out_dim H K 1 < 0 \<or> out_dim W K 1 < 0")
    case neg: True
    have "im2col_3d_run cv a K stride p \<sigma> = (Inl RuntimeError, \<sigma>2)"
      using True assms d neg sz
      by (simp add: im2col_3d_run_def allocate_def [of _ \<sigma>] pad t5 del: One_nat_def)
    moreover have "im2col_3d cv s K stride p = Inl RuntimeError"
      using True d neg sz by (simp add: im2col_3d_def)
    ultimately show ?thesis
      using pre2 by (simp add: returned_def)
  next
    case nonneg: False
    let ?dims = "(B, nat (out_dim D K 1), nat (out_dim H K 1), nat (out_dim W K 1))"
    let ?dims5 = "(B, C, nat (out_dim D K 1), nat (out_dim H K 1), nat (out_dim W K 1))"
    define cu where "cu = length \<sigma>2"
    define col where "col = Suc (length \<sigma>2)"
    define \<tau> where "\<tau> = \<sigma>2 @ [Tensor8 (\<lambda>_. 0), Tensor8 (\<lambda>_. 0)]"
    define tcu where "tcu = fill_patches cv (pad_input p d) (nat K) (Suc 0)"
    have st: "nat stride = Suc 0"
      using True by simp
    have \<tau>: "a < length \<tau>" "\<tau> ! a = Sparse s" "cu < length \<tau>" "col < length \<tau>" "col \<noteq> cu"
      "col \<noteq> a" "inp < length \<tau>" "\<tau> ! inp = Tensor5 (pad_input p d)" "inp \<noteq> cu" "cu \<noteq> a"
      using a sa inp inpd pre2(1)
      by (auto simp: \<tau>_def cu_def col_def nth_append \<sigma>2_def split: if_splits)
    have \<tau>0: "\<tau> = \<tau>[cu := Tensor8 (\<lambda>_. 0)]"
      by (simp add: \<tau>_def cu_def list_update_append)
    define \<tau>5 where "\<tau>5 = \<tau>[cu := Tensor8 tcu]"
    have fill: "fill_patches_run cv cu inp (nat K) (Suc 0) \<tau> = \<tau>5"
      unfolding tcu_def \<tau>5_def
      by (subst \<tau>0) (rule fill_patches_run_update [OF \<tau>(3,7,8,9)])
    have \<tau>5: "a < length \<tau>5" "\<tau>5 ! a = Sparse s" "cu < length \<tau>5" "\<tau>5 ! cu = Tensor8 tcu"
      "col < length \<tau>5" "sparse_at \<tau>5 a = Some s"
      using \<tau> by (simp_all add: \<tau>5_def sparse_at_def)
    have \<tau>50: "\<tau>5 = \<tau>5[col := Tensor8 (\<lambda>_. 0)]"
      using \<tau>(5) by (simp add: \<tau>5_def \<tau>_def cu_def col_def list_update_append)
    have rows: "\<forall>i \<in> set [0..<length (coordinates s)]. i < length (coordinates s)"
      by simp
    from enforce_sparsity_run_update [OF \<tau>5(1,2,3,4,5) \<tau>(5,6) rows, of ?dims mc ts "\<lambda>_. 0"]
    obtain t' where run: "enforce_sparsity_run ?dims mc ts a cu col [0..<length (coordinates s)] \<tau>5 =
           (case enforce_sparsity ?dims mc ts tcu (coordinates s) (\<lambda>_. 0) of
              Inl e \<Rightarrow> Some e | Inr t'' \<Rightarrow> None,
            \<tau>5[col := Tensor8 t'])"
      and t': "\<forall>t''. enforce_sparsity ?dims mc ts tcu (coordinates s) (\<lambda>_. 0) = Inr t'' \<longrightarrow> t' = t''"
      unfolding map_nth using \<tau>50 by auto
    define \<tau>6 where "\<tau>6 = \<tau>5[col := Tensor8 t']"
    have pre6: "length \<sigma> \<le> length \<tau>6" "take (length \<sigma>) \<tau>6 = \<sigma>" "tensor8_at \<tau>6 col = t'"
      "length \<tau>6 = length \<sigma> + (if 0 < p then 4 else 3)"
      using pre2 \<tau>(4)
      by (simp_all add: \<tau>6_def \<tau>5_def \<tau>_def cu_def col_def tensor8_at_def)
    have alloc: "allocate (Tensor8 (\<lambda>_. 0)) \<sigma>2 = (cu, \<sigma>2 @ [Tensor8 (\<lambda>_. 0)])"
      "allocate (Tensor8 (\<lambda>_. 0)) (\<sigma>2 @ [Tensor8 (\<lambda>_. 0)]) = (col, \<tau>)"
      by (simp_all add: allocate_def cu_def col_def \<tau>_def)
    have head: "im2col_3d_run cv a K stride p \<sigma> =
        (case enforce_sparsity_run ?dims mc ts a cu col [0..<length (coordinates s)] \<tau>5 of
           (Some e, \<sigma>6) \<Rightarrow> (Inl e, \<sigma>6)
         | (None, \<sigma>6) \<Rightarrow>
             (case flatten_col ?dims5 (nat K) (tensor8_at \<sigma>6 col) of
                Inl e \<Rightarrow> (Inl e, \<sigma>6)
              | Inr m \<Rightarrow> (case allocate (Matrix m) \<sigma>6 of (x, \<sigma>7) \<Rightarrow> (Inr x, \<sigma>7))))"
      using True assms d nonneg sz
      by (simp add: im2col_3d_run_def Let_def allocate_def [of _ \<sigma>] pad t5 alloc fill \<tau>5(6))
    have pure: "im2col_3d cv s K stride p =
        (case enforce_sparsity ?dims mc ts tcu (coordinates s) (\<lambda>_. 0) of
           Inl e \<Rightarrow> Inl e
         | Inr t'' \<Rightarrow> flatten_col ?dims5 (nat K) t'')"
      using True d nonneg sz by (simp add: im2col_3d_def tcu_def Let_def)
    show ?thesis
    proof (cases "enforce_sparsity ?dims mc ts tcu (coordinates s) (\<lambda>_. 0)")
      case (Inl e)
      with run have "im2col_3d_run cv a K stride p \<sigma> = (Inl e, \<tau>6)"
        unfolding head by (simp add: \<tau>6_def)
      with pure pre6 Inl show ?thesis
        by (simp add: returned_def)
    next
      case (Inr t'')
      with t' have eq: "t' = t''" by simp
      from Inr run have run': "enforce_sparsity_run ?dims mc ts a cu col
          [0..<length (coordinates s)] \<tau>5 = (None, \<tau>6)"
        by (simp add: \<tau>6_def)
      show ?thesis
      proof (cases "flatten_col ?dims5 (nat K) t''")
        case e: (Inl e)
        have "im2col_3d_run cv a K stride p \<sigma> = (Inl e, \<tau>6)"
          unfolding head run' using e eq pre6(3) by simp
        with pure pre6 Inr e show ?thesis
          by (simp add: returned_def)
      next
        case m: (Inr m)
        have run'': "im2col_3d_run cv a K stride p \<sigma> = (Inr (length \<tau>6), \<tau>6 @ [Matrix m])"
          unfolding head run' using m eq pre6(3) by (simp add: allocate_def)
        have mat: "matrix_at (\<tau>6 @ [Matrix m]) (length \<tau>6) = Some m"
          by (simp add: matrix_at_def)
        then have ret: "returned (Inr (length \<tau>6)) (\<tau>6 @ [Matrix m]) = im2col_3d cv s K stride p"
          using pure Inr m by (simp add: returned_def)
        have "length \<sigma> \<le> length (\<tau>6 @ [Matrix m])" "length (\<tau>6 @ [Matrix m]) \<le> length \<sigma> + 5"
          "take (length \<sigma>) (\<tau>6 @ [Matrix m]) = \<sigma>"
          "length \<tau>6 = length \<sigma> + (if 0 < p then 4 else 3)"
          "length (\<tau>6 @ [Matrix m]) = Suc (length \<tau>6)"
          using pre6 by simp_all
        with run'' ret mat show ?thesis
          by blast
      qed
    qed
  qed
qed

section \<open>The example tensors, evaluated\<close>

lemma one_voxel_size: "size5 (dense_grid (one_voxel a)) = (1, 1, 1, 1, 1)"
  by (simp add: dense_grid_def dense_def one_voxel_def local_index_def extent_def nchannels_def)

lemma two_voxel_size: "size5 (dense_grid (two_voxel a b)) = (1, 1, 3, 3, 3)"
  by (simp add: dense_grid_def dense_def two_voxel_def local_index_def extent_def nchannels_def)

lemma two_batches_size: "size5 (dense_grid (two_batches a b c d)) = (2, 2, 1, 2, 3)"
  by (simp add: dense_grid_def dense_def two_batches_def local_index_def extent_def nchannels_def)

lemma below_origin_size: "size5 (dense_grid (below_origin a b)) = (1, 1, 3, 1, 1)"
  by (simp add: dense_grid_def dense_def below_origin_def local_index_def extent_def nchannels_def)


lemma two_voxel_masked:
  "masked_patches cv (two_voxel (a::'a::{zero,equal}) b) 3 1 =
     map (\<lambda>r. if r = 0
               then map cv (receptive_field (pad3d 1 (dense_grid (two_voxel a b))) 3 (0, 0, 0, 0))
               else if r = 26
               then map cv (receptive_field (pad3d 1 (dense_grid (two_voxel a b))) 3 (0, 2, 2, 2))
               else replicate 27 (0::'b::{zero,equal})) [0..<27]"
  by code_simp

lemma two_voxel_fields:
  "receptive_field (pad3d 1 (dense_grid (two_voxel (a::'a::{zero,equal}) b))) 3 (0, 0, 0, 0) =
     replicate 13 0 @ [a] @ replicate 13 0"
  "receptive_field (pad3d 1 (dense_grid (two_voxel (a::'a::{zero,equal}) b))) 3 (0, 2, 2, 2) =
     replicate 13 0 @ [b] @ replicate 13 0"
  by code_simp+

lemma one_voxel_masked:
  "masked_patches (\<lambda>v. v) (one_voxel (a::'a::{zero,equal})) 3 1 = [replicate 13 0 @ [a] @ replicate 13 0]"
  "masked_patches (\<lambda>v. v) (one_voxel (a::'a::{zero,equal})) 3 2 =
     (replicate 26 0 @ [a]) # replicate 26 (replicate 27 0)"
  by code_simp+

lemma two_batches_masked:
  "masked_patches (\<lambda>v. v) (two_batches (1::real) 2 3 4) 3 1 =
     map (\<lambda>r. if r = 0 then replicate 13 0 @ [1] @ replicate 26 0 @ [2] @ replicate 13 0
               else if r = 11 then replicate 13 0 @ [3] @ replicate 26 0 @ [4] @ replicate 13 0
               else replicate 54 0) [0..<12]"
  by code_simp

lemma below_origin_masked:
  "masked_patches (\<lambda>v. v) (below_origin (5::real) 7) 3 1 =
     [replicate 27 0, replicate 27 0, replicate 13 0 @ [7] @ replicate 13 0]"
  by code_simp


lemma float32_example:
  "float32_of_int 16777217 = 16777216" "float32_of_int 16777219 = 16777220"
  "float32_of_int 33554435 = 33554436" "float32_of_int (- 16777217) = - 16777216"
  "float32_of_int 16777216 = 16777216" "float32_of_int 1 = 1" "float32_of_int 0 = 0"
  by code_simp+

lemma two_voxel_float32_masked:
  "masked_patches float32_of_int (two_voxel 16777217 1) 3 1 =
     map (\<lambda>r. if r = 0 then replicate 13 0 @ [16777216] @ replicate 13 0
               else if r = 26 then replicate 13 0 @ [1] @ replicate 13 0
               else replicate 27 0) [0..<27]"
  by code_simp

lemma one_voxel_dense:
  "dense (one_voxel a) (0, 0, 0) = (dense_grid (one_voxel a), (0, 0, 0), (1, 1, 1))"
  using dense_grid_eq [of "one_voxel a"] by (simp add: one_voxel_def)

lemma two_voxel_dense:
  "dense (two_voxel a b) (0, 0, 0) = (dense_grid (two_voxel a b), (0, 0, 0), (1, 1, 1))"
  using dense_grid_eq [of "two_voxel a b"] by (simp add: two_voxel_def)

lemma two_batches_dense:
  "dense (two_batches a b c d) (0, 0, 0) = (dense_grid (two_batches a b c d), (0, 0, 0), (1, 1, 1))"
  using dense_grid_eq [of "two_batches a b c d"] by (simp add: two_batches_def)

lemma below_origin_dense:
  "dense (below_origin a b) (0, 0, 0) = (dense_grid (below_origin a b), (0, 0, 0), (1, 1, 1))"
  using dense_grid_eq [of "below_origin a b"] by (simp add: below_origin_def)


lemma out_dim_values:
  "out_dim 3 3 1 = 1" "out_dim 5 3 1 = 3" "out_dim 4 3 1 = 2" "out_dim 1 1 1 = 1"
  "out_dim (Suc 0) 1 1 = 1"
  by (simp_all add: out_dim_def ceil_div_def)

lemma one_voxel_im2col:
  "im2col_3d cv (one_voxel a) 3 1 1 = Inr (masked_patches cv (one_voxel a) 3 1)"
proof (rule im2col_3d_value [OF one_voxel_dense])
  show "size5 (pad_input 1 (dense_grid (one_voxel a))) = (1, 1, 3, 3, 3)"
    by (simp add: pad_input_def pad3d_def one_voxel_size)
  show "list_all (\<lambda>crd. \<not> isl (slab_index (1, nat (out_dim 3 3 1), nat (out_dim 3 3 1),
          nat (out_dim 3 3 1)) (0, 0, 0) (1, 1, 1) crd)) (coordinates (one_voxel a))"
    by (simp add: out_dim_values one_voxel_def slab_index_def local_index_def tensor_index_def)
qed (simp_all add: out_dim_values)

lemma one_voxel_im2col_2:
  "im2col_3d cv (one_voxel a) 3 1 2 = Inr (masked_patches cv (one_voxel a) 3 2)"
proof (rule im2col_3d_value [OF one_voxel_dense])
  show "size5 (pad_input 2 (dense_grid (one_voxel a))) = (1, 1, 5, 5, 5)"
    by (simp add: pad_input_def pad3d_def one_voxel_size)
  show "list_all (\<lambda>crd. \<not> isl (slab_index (1, nat (out_dim 5 3 1), nat (out_dim 5 3 1),
          nat (out_dim 5 3 1)) (0, 0, 0) (1, 1, 1) crd)) (coordinates (one_voxel a))"
    by (simp add: out_dim_values one_voxel_def slab_index_def local_index_def tensor_index_def)
qed (simp_all add: out_dim_values)

lemma one_voxel_im2col_0:
  "im2col_3d cv (one_voxel a) 3 1 0 = Inl RuntimeError"
  by (simp add: im2col_3d_def one_voxel_dense pad_input_def one_voxel_size out_dim_def ceil_div_def)

lemma two_voxel_im2col:
  "im2col_3d cv (two_voxel a b) 3 1 1 = Inr (masked_patches cv (two_voxel a b) 3 1)"
proof (rule im2col_3d_value [OF two_voxel_dense])
  show "size5 (pad_input 1 (dense_grid (two_voxel a b))) = (1, 1, 5, 5, 5)"
    by (simp add: pad_input_def pad3d_def two_voxel_size)
  show "list_all (\<lambda>crd. \<not> isl (slab_index (1, nat (out_dim 5 3 1), nat (out_dim 5 3 1),
          nat (out_dim 5 3 1)) (0, 0, 0) (1, 1, 1) crd)) (coordinates (two_voxel a b))"
    by (simp add: out_dim_values two_voxel_def slab_index_def local_index_def tensor_index_def)
qed (simp_all add: out_dim_values)

lemma two_batches_im2col:
  "im2col_3d cv (two_batches a b c d) 3 1 1 = Inr (masked_patches cv (two_batches a b c d) 3 1)"
proof (rule im2col_3d_value [OF two_batches_dense])
  show "size5 (pad_input 1 (dense_grid (two_batches a b c d))) = (2, 2, 3, 4, 5)"
    by (simp add: pad_input_def pad3d_def two_batches_size)
  show "list_all (\<lambda>crd. \<not> isl (slab_index (2, nat (out_dim 3 3 1), nat (out_dim 4 3 1),
          nat (out_dim 5 3 1)) (0, 0, 0) (1, 1, 1) crd)) (coordinates (two_batches a b c d))"
    by (simp add: out_dim_values two_batches_def slab_index_def local_index_def tensor_index_def)
qed (simp_all add: out_dim_values)

lemma below_origin_im2col:
  "im2col_3d cv (below_origin a b) 3 1 1 = Inr (masked_patches cv (below_origin a b) 3 1)"
proof (rule im2col_3d_value [OF below_origin_dense])
  show "size5 (pad_input 1 (dense_grid (below_origin a b))) = (1, 1, 5, 3, 3)"
    by (simp add: pad_input_def pad3d_def below_origin_size)
  show "list_all (\<lambda>crd. \<not> isl (slab_index (1, nat (out_dim 5 3 1), nat (out_dim 3 3 1),
          nat (out_dim 3 3 1)) (0, 0, 0) (1, 1, 1) crd)) (coordinates (below_origin a b))"
    by (simp add: out_dim_values below_origin_def slab_index_def local_index_def tensor_index_def)
qed (simp_all add: out_dim_values)




lemma two_voxel_im2col_values:
  "im2col_3d (\<lambda>v. v) (two_voxel (a::real) b) 3 1 1 =
     Inr (map (\<lambda>r. if r = 0 then replicate 13 0 @ [a] @ replicate 13 0
                    else if r = 26 then replicate 13 0 @ [b] @ replicate 13 0
                    else replicate 27 0) [0..<27])"
  by (simp only: two_voxel_im2col two_voxel_masked two_voxel_fields list.map_ident)

section \<open>The export hook and the transposition, lemmas\<close>

lemma in_hook_Inr:
  assumes "in_hook cv inputs K stride = Inr cols"
  shows "if stride = 1
         then list_all2 (\<lambda>x col. im2col_3d cv x K 1 (K div 2) = Inr col) inputs cols
         else cols = []"
  using assms
proof (induction inputs arbitrary: cols)
  case Nil
  then show ?case by simp
next
  case (Cons x rest)
  then show ?case
    by (auto split: sum.splits if_splits prod.splits)
qed

lemma transpose01_source_less:
  assumes "j < a * b * r"
  shows "transpose01_source b a r j < b * a * r"
proof -
  have r: "0 < r" and b: "0 < b" using assms by (cases r; cases b; simp)+
  have q: "j div r < a * b"
    using assms r by (simp add: less_mult_imp_div_less)
  then have y: "(j div r) div b < a"
    by (simp add: less_mult_imp_div_less mult.commute)
  have x: "(j div r) mod b < b" using b by simp
  have "(j div r) mod b * a + (j div r) div b < b * a"
  proof -
    have "(j div r) mod b * a + (j div r) div b < (j div r) mod b * a + a"
      using y by simp
    also have "\<dots> = Suc ((j div r) mod b) * a" by simp
    also have "\<dots> \<le> b * a"
      using x by (intro mult_le_mono1) simp
    finally show ?thesis .
  qed
  then have X: "Suc ((j div r) mod b * a + (j div r) div b) \<le> b * a"
    by simp
  have "((j div r) mod b * a + (j div r) div b) * r + j mod r <
      ((j div r) mod b * a + (j div r) div b) * r + r"
    using r by simp
  also have "\<dots> = Suc ((j div r) mod b * a + (j div r) div b) * r"
    by simp
  also have "\<dots> \<le> b * a * r"
    using X by (rule mult_le_mono1)
  finally show ?thesis by (simp add: transpose01_source_def)
qed

lemma transpose01_source_inverse:
  assumes "j < a * b * r"
  shows "transpose01_source a b r (transpose01_source b a r j) = j"
proof -
  have r: "0 < r" and b: "0 < b" and a: "0 < a" using assms by (cases r; cases b; cases a; simp)+
  define q where "q = j div r"
  have q: "q < a * b"
    using assms r by (simp add: q_def less_mult_imp_div_less)
  then have y: "q div b < a"
    by (simp add: less_mult_imp_div_less mult.commute)
  define j' where "j' = (q mod b * a + q div b) * r + j mod r"
  have "j' div r = q mod b * a + q div b"
    using r by (simp add: j'_def)
  moreover have "j' mod r = j mod r"
    by (simp add: j'_def)
  moreover have "(q mod b * a + q div b) mod a = q div b"
    using y by simp
  moreover have "(q mod b * a + q div b) div a = q mod b"
    using y a by simp
  ultimately have "transpose01_source a b r j' = (q div b * b + q mod b) * r + j mod r"
    by (simp add: transpose01_source_def)
  also have "\<dots> = q * r + j mod r"
    by simp
  also have "\<dots> = j"
    by (simp add: q_def)
  finally show ?thesis
    by (simp add: j'_def q_def transpose01_source_def)
qed

lemma transpose01_twice:
  assumes "length xs = a * b * r"
  shows "map (\<lambda>j. map (\<lambda>i. xs ! transpose01_source a b r i) [0..<b * a * r] !
                    transpose01_source b a r j) [0..<a * b * r] = xs"
proof (rule nth_equalityI)
  show "length (map (\<lambda>j. map (\<lambda>i. xs ! transpose01_source a b r i) [0..<b * a * r] !
                    transpose01_source b a r j) [0..<a * b * r]) = length xs"
    using assms by simp
next
  fix j
  assume "j < length (map (\<lambda>j. map (\<lambda>i. xs ! transpose01_source a b r i) [0..<b * a * r] !
                    transpose01_source b a r j) [0..<a * b * r])"
  then have j: "j < a * b * r" by simp
  from transpose01_source_less [OF j] transpose01_source_inverse [OF j] j
  show "map (\<lambda>j. map (\<lambda>i. xs ! transpose01_source a b r i) [0..<b * a * r] !
                    transpose01_source b a r j) [0..<a * b * r] ! j = xs ! j"
    by simp
qed

section \<open>The stride precondition\<close>

text \<open>
  Claim C3.  A call of \<^verbatim>\<open>im2col_3d\<close> with a stride other than 1 stops with the
  assertion \<^verbatim>\<open>stride must be 1\<close>, whatever the tensor, the kernel size, the padding
  and the conversion to float32 are, and a call with stride 1 never stops with that
  assertion.
\<close>

theorem im2col_3d_stride_assertion:
  "(im2col_3d to_float32 s K stride p = Inl (AssertionError ''stride must be 1'')) = (stride \<noteq> 1)"
proof (cases "stride = 1")
  case True
  then show ?thesis
    using im2col_3d_error [of to_float32 s K p "AssertionError ''stride must be 1''"] by auto
next
  case False
  then show ?thesis by (simp add: im2col_3d_def)
qed

section \<open>Shape and order of the output\<close>

text \<open>
  Claim C5.  The extent that lines 143-145 compute for an axis of size \<open>n\<close> is
  \<open>ceil((n - K + 1) / stride)\<close>, for every stride other than 0.  When \<^verbatim>\<open>im2col_3d\<close> returns a
  matrix for an input whose padded dense grid has size \<open>(B, C, D, H, W)\<close>, the output
  extents are these values for the padded extents, the matrix has
  \<open>B * out_depth * out_height * out_width\<close> rows of \<open>C * K * K * K\<close> columns, its rows
  are the output locations in row-major order of \<open>(batch, z, y, x)\<close>, and the columns
  of a row enumerate \<open>(channel, kz, ky, kx)\<close> with the channel outermost: the entry is
  the cell \<open>(b, c, kz, ky, kx, z, y, x)\<close> of the masked patch tensor \<^verbatim>\<open>col\<close>.
\<close>

theorem im2col_3d_shape:
  assumes "im2col_3d to_float32 s K stride p = Inr m" and "dense s (0, 0, 0) = (d, mc, ts)"
    and "size5 (pad_input p d) = (B, C, D, H, W)"
  shows "(\<forall>n k st. st \<noteq> 0 \<longrightarrow>
            out_dim n k st = \<lceil>(real n - real_of_int k + 1) / real_of_int st\<rceil>) \<and>
     (\<exists>od oh ow col.
        int od = out_dim D K stride \<and> int oh = out_dim H K stride \<and> int ow = out_dim W K stride \<and>
        int od = \<lceil>(real D - real_of_int K + 1) / real_of_int stride\<rceil> \<and>
        int oh = \<lceil>(real H - real_of_int K + 1) / real_of_int stride\<rceil> \<and>
        int ow = \<lceil>(real W - real_of_int K + 1) / real_of_int stride\<rceil> \<and>
        enforce_sparsity (B, od, oh, ow) mc ts
          (fill_patches to_float32 (pad_input p d) (nat K) (nat stride))
          (coordinates s) (\<lambda>_. 0) = Inr col \<and>
        length m = B * od * oh * ow \<and>
        (\<forall>row \<in> set m. length row = C * nat K * nat K * nat K) \<and>
        m = [[col (b, c, kz, ky, kx, z, y, x).
                c \<leftarrow> [0..<C], kz \<leftarrow> [0..<nat K], ky \<leftarrow> [0..<nat K], kx \<leftarrow> [0..<nat K]].
             b \<leftarrow> [0..<B], z \<leftarrow> [0..<od], y \<leftarrow> [0..<oh], x \<leftarrow> [0..<ow]])"
proof -
  define od where "od = nat (out_dim D K stride)"
  define oh where "oh = nat (out_dim H K stride)"
  define ow where "ow = nat (out_dim W K stride)"
  have sh: "out_shape (pad_input p d) K stride = (B, C, od, oh, ow)"
    using assms(3) by (simp add: out_shape_def od_def oh_def ow_def)
  from im2col_3d_Inr [OF assms(1,2) sh] obtain col where st: "stride = 1"
    and col: "enforce_sparsity (B, od, oh, ow) mc ts
               (fill_patches to_float32 (pad_input p d) (nat K) 1) (coordinates s) (\<lambda>_. 0) = Inr col"
    and m: "flatten_col (B, C, od, oh, ow) (nat K) col = Inr m"
    by blast
  have dims: "int od = out_dim D K stride" "int oh = out_dim H K stride"
      "int ow = out_dim W K stride"
    using im2col_3d_out_dim [OF assms] by (simp_all add: od_def oh_def ow_def)
  then have "int od = \<lceil>(real D - real_of_int K + 1) / real_of_int stride\<rceil>"
    and "int oh = \<lceil>(real H - real_of_int K + 1) / real_of_int stride\<rceil>"
    and "int ow = \<lceil>(real W - real_of_int K + 1) / real_of_int stride\<rceil>"
    by (simp_all add: out_dim_ceiling)
  moreover have "enforce_sparsity (B, od, oh, ow) mc ts
       (fill_patches to_float32 (pad_input p d) (nat K) (nat stride)) (coordinates s) (\<lambda>_. 0) =
       Inr col"
    using col st by simp
  moreover have "length m = B * od * oh * ow"
    using flatten_col_length [OF m] by (simp add: mult.assoc)
  moreover have "\<forall>row \<in> set m. length row = C * nat K * nat K * nat K"
    using flatten_col_row_length [OF m] by (simp add: mult.assoc)
  moreover note flatten_col_rows [OF m] dims
  ultimately have "\<exists>od oh ow col.
        int od = out_dim D K stride \<and> int oh = out_dim H K stride \<and> int ow = out_dim W K stride \<and>
        int od = \<lceil>(real D - real_of_int K + 1) / real_of_int stride\<rceil> \<and>
        int oh = \<lceil>(real H - real_of_int K + 1) / real_of_int stride\<rceil> \<and>
        int ow = \<lceil>(real W - real_of_int K + 1) / real_of_int stride\<rceil> \<and>
        enforce_sparsity (B, od, oh, ow) mc ts
          (fill_patches to_float32 (pad_input p d) (nat K) (nat stride))
          (coordinates s) (\<lambda>_. 0) = Inr col \<and>
        length m = B * od * oh * ow \<and>
        (\<forall>row \<in> set m. length row = C * nat K * nat K * nat K) \<and>
        m = [[col (b, c, kz, ky, kx, z, y, x).
                c \<leftarrow> [0..<C], kz \<leftarrow> [0..<nat K], ky \<leftarrow> [0..<nat K], kx \<leftarrow> [0..<nat K]].
             b \<leftarrow> [0..<B], z \<leftarrow> [0..<od], y \<leftarrow> [0..<oh], x \<leftarrow> [0..<ow]]"
    by blast
  moreover have "\<forall>n k st. st \<noteq> 0 \<longrightarrow>
      out_dim n k st = \<lceil>(real n - real_of_int k + 1) / real_of_int st\<rceil>"
    by (simp add: out_dim_ceiling)
  ultimately show ?thesis by blast
qed

theorem im2col_3d_shape_witness:
  "im2col_3d (\<lambda>v. v) (two_batches (1::real) 2 3 4) 3 1 1 =
     Inr (map (\<lambda>r. if r = 0 then replicate 13 0 @ [1] @ replicate 26 0 @ [2] @ replicate 13 0
                    else if r = 11 then replicate 13 0 @ [3] @ replicate 26 0 @ [4] @ replicate 13 0
                    else replicate 54 0) [0..<12]) \<and>
   dense (two_batches (1::real) 2 3 4) (0, 0, 0) =
     (dense_grid (two_batches 1 2 3 4), (0, 0, 0), (1, 1, 1)) \<and>
   size5 (pad_input 1 (dense_grid (two_batches (1::real) 2 3 4))) = (2, 2, 3, 4, 5) \<and>
   out_dim 7 3 2 = 3 \<and>
   (\<exists>od oh ow. (od, oh, ow) = (1::nat, 2::nat, 3::nat) \<and>
      length (map (\<lambda>r. if r = 0 then replicate 13 0 @ [1::real] @ replicate 26 0 @ [2] @ replicate 13 0
                    else if r = 11 then replicate 13 0 @ [3] @ replicate 26 0 @ [4] @ replicate 13 0
                    else replicate 54 0) [0..<12]) = 2 * od * oh * ow)"
proof -
  let ?M = "map (\<lambda>r. if r = 0 then replicate 13 0 @ [1::real] @ replicate 26 0 @ [2] @ replicate 13 0
                    else if r = 11 then replicate 13 0 @ [3] @ replicate 26 0 @ [4] @ replicate 13 0
                    else replicate 54 0) [0..<12]"
  have h1: "im2col_3d (\<lambda>v. v) (two_batches (1::real) 2 3 4) 3 1 1 = Inr ?M"
    by (simp only: two_batches_im2col two_batches_masked)
  have h2: "dense (two_batches (1::real) 2 3 4) (0, 0, 0) =
      (dense_grid (two_batches 1 2 3 4), (0, 0, 0), (1, 1, 1))"
    by (rule two_batches_dense)
  have h3: "size5 (pad_input 1 (dense_grid (two_batches (1::real) 2 3 4))) = (2, 2, 3, 4, 5)"
    by (simp add: pad_input_def pad3d_def two_batches_size)
  note shape = im2col_3d_shape [OF h1 h2 h3]
  from shape have "(2::int) \<noteq> 0 \<longrightarrow>
      out_dim 7 3 2 = \<lceil>(real 7 - real_of_int 3 + 1) / real_of_int 2\<rceil>"
    by blast
  then have "out_dim 7 3 2 = \<lceil>(real 7 - real_of_int 3 + 1) / real_of_int 2\<rceil>"
    by simp
  also have "\<dots> = 3"
    by (simp add: ceiling_eq_iff)
  finally have c1: "out_dim 7 3 2 = 3" .
  from shape obtain od oh ow where
    "int od = out_dim 3 3 1" "int oh = out_dim 4 3 1" "int ow = out_dim 5 3 1"
    "length ?M = 2 * od * oh * ow"
    by (elim conjE exE)
  then have c2: "\<exists>od oh ow. (od, oh, ow) = (1::nat, 2::nat, 3::nat) \<and> length ?M = 2 * od * oh * ow"
    by (simp add: out_dim_values)
  show ?thesis
    by (intro conjI) (rule h1, rule h2, rule h3, rule c1, rule c2)
qed

section \<open>Order and multiplicity of the coordinate rows\<close>




section \<open>The indices of the masking loop\<close>

text \<open>
  Claim C9, as amended.  Take a sparse tensor none of whose coordinate rows has a
  negative batch index or a coordinate below the minimum coordinate \<open>(0, 0, 0)\<close> of the
  densification, with positive tensor strides.  For an odd kernel size \<open>K\<close>, padding
  \<open>K div 2\<close> and stride 1, the output extents equal the extents of the unpadded dense
  grid, so the local index \<open>(coordinate - min_coordinate) div tensor_stride\<close> of every
  coordinate row lies in \<open>[0, out_dim)\<close> on each spatial axis, every row has an output
  index, and the call returns a matrix.  A coordinate below the minimum coordinate has
  a negative local index, which is an index counted from the end of the axis.
\<close>

theorem remask_index_in_bounds:
  assumes "dense s (0, 0, 0) = (d, mc, ts)" and "size5 d = (bs, ch, dd, hh, ww)"
    and "size5 (pad_input (K div 2) d) = (B, C, D, H, W)"
    and "odd K" and "0 < K"
    and "\<forall>crd \<in> set (coordinates s). in_grid crd"
    and "0 < fst ts \<and> 0 < fst (snd ts) \<and> 0 < snd (snd ts)"
  shows "out_dim D K 1 = int dd \<and> out_dim H K 1 = int hh \<and> out_dim W K 1 = int ww \<and>
     (\<forall>crd \<in> set (coordinates s).
        case local_index mc ts crd of
          (b, z, y, x) \<Rightarrow> 0 \<le> z \<and> z < out_dim D K 1 \<and> 0 \<le> y \<and> y < out_dim H K 1 \<and>
                          0 \<le> x \<and> x < out_dim W K 1) \<and>
     list_all (index_in_bounds (out_shape (pad_input (K div 2) d) K 1)) (mask_indices s) \<and>
     (\<forall>crd \<in> set (coordinates s).
        \<exists>l. slab_index (B, nat (out_dim D K 1), nat (out_dim H K 1), nat (out_dim W K 1))
               mc ts crd = Inr l) \<and>
     (\<exists>m. im2col_3d to_float32 s K 1 (K div 2) = Inr m)"
proof -
  have "D = dd + 2 * nat (K div 2)" "H = hh + 2 * nat (K div 2)" "W = ww + 2 * nat (K div 2)"
    and B: "B = bs"
    using pad_input_size [OF assms(2), of "K div 2"] assms(3) by (auto split: if_splits)
  then have out: "out_dim D K 1 = int dd" "out_dim H K 1 = int hh" "out_dim W K 1 = int ww"
    using out_dim_odd_kernel [OF assms(4,5)] by simp_all
  have mc: "mc = (0, 0, 0)"
    using dense_returns(1) [OF assms(1)] .
  have grid: "in_grid (local_index mc ts crd)" if "crd \<in> set (coordinates s)" for crd
    unfolding mc using assms(6,7) that by (intro local_index_nonneg) auto
  have nz: "fst ts \<noteq> 0 \<and> fst (snd ts) \<noteq> 0 \<and> snd (snd ts) \<noteq> 0"
    using assms(7) by auto
  have idx: "0 \<le> b \<and> b < int bs \<and> 0 \<le> z \<and> z < int dd \<and> 0 \<le> y \<and> y < int hh \<and> 0 \<le> x \<and> x < int ww"
    if "crd \<in> set (coordinates s)" and "local_index mc ts crd = (b, z, y, x)" for crd b z y x
    using dense_local_index [OF assms(1,2) that] grid [OF that(1)] that(2)
    by (simp add: in_grid_def)
  have loc: "case local_index mc ts crd of
          (b, z, y, x) \<Rightarrow> 0 \<le> z \<and> z < out_dim D K 1 \<and> 0 \<le> y \<and> y < out_dim H K 1 \<and>
                          0 \<le> x \<and> x < out_dim W K 1"
    if "crd \<in> set (coordinates s)" for crd
    using idx [OF that] out by (cases "local_index mc ts crd") simp
  have sh: "out_shape (pad_input (K div 2) d) K 1 = (B, C, dd, hh, ww)"
    using assms(3) out by (simp add: out_shape_def)
  have all: "list_all (index_in_bounds (out_shape (pad_input (K div 2) d) K 1)) (mask_indices s)"
    unfolding sh list_all_iff
  proof
    fix l assume "l \<in> set (mask_indices s)"
    then obtain crd where crd: "crd \<in> set (coordinates s)" and l: "l = local_index mc ts crd"
      using assms(1) by (auto simp: mask_indices_def)
    obtain b z y x where "local_index mc ts crd = (b, z, y, x)"
      by (cases "local_index mc ts crd")
    with idx [OF crd this] l show "index_in_bounds (B, C, dd, hh, ww) l"
      by (simp add: index_in_bounds_def)
  qed
  have slab: "\<exists>l. slab_index (B, nat (out_dim D K 1), nat (out_dim H K 1), nat (out_dim W K 1))
               mc ts crd = Inr l"
    if "crd \<in> set (coordinates s)" for crd
  proof -
    obtain b z y x where l: "local_index mc ts crd = (b, z, y, x)"
      by (cases "local_index mc ts crd")
    from idx [OF that l] out B
    have "0 \<le> b \<and> b < int B" "0 \<le> z \<and> z < int (nat (out_dim D K 1))"
      "0 \<le> y \<and> y < int (nat (out_dim H K 1))" "0 \<le> x \<and> x < int (nat (out_dim W K 1))"
      by auto
    from slab_index_in_range [OF nz l this] show ?thesis by blast
  qed
  have tot: "\<exists>m. im2col_3d to_float32 s K 1 (K div 2) = Inr m"
    by (rule im2col_3d_total [OF assms(1,2,3) _ _ _ _ nz grid]) (use assms(5) out in simp_all)
  show ?thesis
  proof (intro conjI ballI)
    show "out_dim D K 1 = int dd" "out_dim H K 1 = int hh" "out_dim W K 1 = int ww"
      by (rule out)+
    show "\<exists>m. im2col_3d to_float32 s K 1 (K div 2) = Inr m"
      by (rule tot)
    show "list_all (index_in_bounds (out_shape (pad_input (K div 2) d) K 1)) (mask_indices s)"
      by (rule all)
  qed (rule loc slab, assumption)+
qed

theorem remask_index_in_bounds_witness:
  "dense (two_voxel (5::real) 7) (0, 0, 0) = (dense_grid (two_voxel 5 7), (0, 0, 0), (1, 1, 1)) \<and>
   size5 (dense_grid (two_voxel (5::real) 7)) = (1, 1, 3, 3, 3) \<and>
   size5 (pad_input (3 div 2) (dense_grid (two_voxel (5::real) 7))) = (1, 1, 5, 5, 5) \<and>
   odd (3::int) \<and> 0 < (3::int) \<and>
   list_all in_grid (coordinates (two_voxel (5::real) 7)) \<and>
   out_dim 5 3 1 = int 3 \<and>
   mask_indices (two_voxel (5::real) 7) = [(0, 0, 0, 0), (0, 2, 2, 2)] \<and>
   list_all (index_in_bounds (out_shape (pad_input (3 div 2) (dense_grid (two_voxel (5::real) 7))) 3 1))
     (mask_indices (two_voxel (5::real) 7)) \<and>
   (\<exists>m. im2col_3d (\<lambda>v. v) (two_voxel (5::real) 7) 3 1 (3 div 2) = Inr (m::real list list))"
proof -
  have h1: "dense (two_voxel (5::real) 7) (0, 0, 0) =
      (dense_grid (two_voxel 5 7), (0, 0, 0), (1, 1, 1))"
    by (rule two_voxel_dense)
  have h2: "size5 (dense_grid (two_voxel (5::real) 7)) = (1, 1, 3, 3, 3)"
    by (rule two_voxel_size)
  have h3: "size5 (pad_input (3 div 2) (dense_grid (two_voxel (5::real) 7))) = (1, 1, 5, 5, 5)"
    by (simp add: pad_input_def pad3d_def two_voxel_size)
  have h4: "odd (3::int)" and h5: "0 < (3::int)" by simp_all
  have h6: "list_all in_grid (coordinates (two_voxel (5::real) 7))"
    by (simp add: two_voxel_def in_grid_def)
  then have h6': "\<forall>crd \<in> set (coordinates (two_voxel (5::real) 7)). in_grid crd"
    by (simp only: list_all_iff)
  have h7: "0 < fst (1::int, 1::int, 1::int) \<and> 0 < fst (snd (1::int, 1::int, 1::int)) \<and>
      0 < snd (snd (1::int, 1::int, 1::int))"
    by simp
  have i: "mask_indices (two_voxel (5::real) 7) = [(0, 0, 0, 0), (0, 2, 2, 2)]"
    by (simp add: mask_indices_def two_voxel_dense) (simp add: two_voxel_def local_index_def)
  note c = remask_index_in_bounds [OF h1 h2 h3 h4 h5 h6' h7]
  have c1: "out_dim 5 3 1 = int 3"
    using c by blast
  have c2: "list_all (index_in_bounds (out_shape (pad_input (3 div 2)
      (dense_grid (two_voxel (5::real) 7))) 3 1)) (mask_indices (two_voxel (5::real) 7))"
    using c by blast
  have c3: "\<exists>m. im2col_3d (\<lambda>v. v) (two_voxel (5::real) 7) 3 1 (3 div 2) = Inr (m::real list list)"
    using c by blast
  show ?thesis
    by (intro conjI) (rule h1, rule h2, rule h3, rule h4, rule h5, rule h6, rule c1, rule i,
        rule c2, rule c3)
qed

theorem remask_index_counterexample:
  "coordinates (below_origin (5::real) 7) = [(0, - 1, 0, 0), (0, 2, 0, 0)] \<and>
   mask_indices (below_origin (5::real) 7) = [(0, - 1, 0, 0), (0, 2, 0, 0)] \<and>
   out_shape (pad_input (3 div 2) (dense_grid (below_origin (5::real) 7))) 3 1 = (1, 1, 3, 1, 1) \<and>
   \<not> index_in_bounds (1, 1, 3, 1, 1) (0, - 1, 0, 0) \<and>
   \<not> list_all (index_in_bounds (out_shape (pad_input (3 div 2)
          (dense_grid (below_origin (5::real) 7))) 3 1))
        (mask_indices (below_origin (5::real) 7)) \<and>
   slab_index (1, 3, 1, 1) (0, 0, 0) (1, 1, 1) (0, - 1, 0, 0) = Inr (0, 2, 0, 0) \<and>
   im2col_3d (\<lambda>v. v) (below_origin (5::real) 7) 3 1 (3 div 2) =
     Inr [replicate 27 0, replicate 27 0, replicate 13 0 @ [7] @ replicate 13 0]"
proof -
  have h0: "coordinates (below_origin (5::real) 7) = [(0, - 1, 0, 0), (0, 2, 0, 0)]"
    by (simp add: below_origin_def)
  have h1: "mask_indices (below_origin (5::real) 7) = [(0, - 1, 0, 0), (0, 2, 0, 0)]"
    by (simp add: mask_indices_def below_origin_dense) (simp add: below_origin_def local_index_def)
  have h2: "out_shape (pad_input (3 div 2) (dense_grid (below_origin (5::real) 7))) 3 1 =
      (1, 1, 3, 1, 1)"
    by (simp add: out_shape_def pad_input_def pad3d_def below_origin_size out_dim_def ceil_div_def)
  have h3: "\<not> index_in_bounds (1, 1, 3, 1, 1) (0, - 1, 0, 0)"
    by (simp add: index_in_bounds_def)
  have h4: "\<not> list_all (index_in_bounds (out_shape (pad_input (3 div 2)
          (dense_grid (below_origin (5::real) 7))) 3 1))
        (mask_indices (below_origin (5::real) 7))"
    unfolding h1 h2 using h3 by simp
  have h5: "slab_index (1, 3, 1, 1) (0, 0, 0) (1, 1, 1) (0, - 1, 0, 0) = Inr (0, 2, 0, 0)"
    by (simp add: slab_index_def local_index_def tensor_index_def)
  have p: "(3::int) div 2 = 1" by simp
  have h6: "im2col_3d (\<lambda>v. v) (below_origin (5::real) 7) 3 1 (3 div 2) =
     Inr [replicate 27 0, replicate 27 0, replicate 13 0 @ [7] @ replicate 13 0]"
    unfolding p by (simp only: below_origin_im2col below_origin_masked)
  show ?thesis
    by (intro conjI) (rule h0, rule h1, rule h2, rule h3, rule h4, rule h5, rule h6)
qed

section \<open>Sparsity of the output\<close>




section \<open>Patch content on the two-voxel tensor\<close>

text \<open>
  Claim C2, as amended.  For the tensor with the two voxels \<open>(0, 0, 0)\<close> and \<open>(2, 2, 2)\<close>
  of batch 0, one channel, feature values \<open>a\<close> and \<open>b\<close>, tensor stride 1, kernel size 3
  and padding 1, \<^verbatim>\<open>im2col_3d\<close> returns 27 rows: row 0, the location \<open>(0, 0, 0)\<close>, and
  row 26, the location \<open>(2, 2, 2)\<close>, are the receptive fields of these locations in the
  dense grid padded with one zero cell on each side, every element converted to
  float32; the receptive fields hold \<open>a\<close> and \<open>b\<close> at the centre column 13 and zero
  elsewhere; every other row is zero.
\<close>

theorem two_voxel_patches:
  fixes a b :: "'a::{zero,equal}" and to_float32 :: "'a \<Rightarrow> 'b::{zero,equal}"
  shows "im2col_3d to_float32 (two_voxel a b) 3 1 1 =
       Inr (map (\<lambda>r. if r = 0
                      then map to_float32
                             (receptive_field (pad3d 1 (dense_grid (two_voxel a b))) 3 (0, 0, 0, 0))
                      else if r = 26
                      then map to_float32
                             (receptive_field (pad3d 1 (dense_grid (two_voxel a b))) 3 (0, 2, 2, 2))
                      else replicate 27 0) [0..<27]) \<and>
     location (3, 3, 3) 0 = (0, 0, 0, 0) \<and> location (3, 3, 3) 26 = (0, 2, 2, 2) \<and>
     receptive_field (pad3d 1 (dense_grid (two_voxel a b))) 3 (0, 0, 0, 0) =
       replicate 13 0 @ [a] @ replicate 13 0 \<and>
     receptive_field (pad3d 1 (dense_grid (two_voxel a b))) 3 (0, 2, 2, 2) =
       replicate 13 0 @ [b] @ replicate 13 0 \<and>
     im2col_3d to_float32 (two_voxel a b) 3 1 1 =
       Inr (map (\<lambda>r. if r = 0
                      then replicate 13 (to_float32 0) @ [to_float32 a] @ replicate 13 (to_float32 0)
                      else if r = 26
                      then replicate 13 (to_float32 0) @ [to_float32 b] @ replicate 13 (to_float32 0)
                      else replicate 27 0) [0..<27])"
proof -
  have m: "im2col_3d to_float32 (two_voxel a b) 3 1 1 =
       Inr (map (\<lambda>r. if r = 0
                      then map to_float32
                             (receptive_field (pad3d 1 (dense_grid (two_voxel a b))) 3 (0, 0, 0, 0))
                      else if r = 26
                      then map to_float32
                             (receptive_field (pad3d 1 (dense_grid (two_voxel a b))) 3 (0, 2, 2, 2))
                      else replicate 27 0) [0..<27])"
    by (simp only: two_voxel_im2col two_voxel_masked)
  have l: "location (3, 3, 3) 0 = (0, 0, 0, 0)" "location (3, 3, 3) 26 = (0, 2, 2, 2)"
    by (simp_all add: location_def unravel3_def)
  have v: "im2col_3d to_float32 (two_voxel a b) 3 1 1 =
       Inr (map (\<lambda>r. if r = 0
                      then replicate 13 (to_float32 0) @ [to_float32 a] @ replicate 13 (to_float32 0)
                      else if r = 26
                      then replicate 13 (to_float32 0) @ [to_float32 b] @ replicate 13 (to_float32 0)
                      else replicate 27 0) [0..<27])"
    unfolding m two_voxel_fields by (simp only: map_append map_replicate list.map)
  show ?thesis
    by (intro conjI) (rule m, rule l, rule l, rule two_voxel_fields, rule two_voxel_fields, rule v)
qed

theorem two_voxel_patches_witness:
  "im2col_3d (\<lambda>v. v) (two_voxel (5::real) 7) 3 1 1 =
       Inr (map (\<lambda>r. if r = 0 then replicate 13 0 @ [5] @ replicate 13 0
                      else if r = 26 then replicate 13 0 @ [7] @ replicate 13 0
                      else replicate 27 0) [0..<27]) \<and>
   receptive_field (pad3d 1 (dense_grid (two_voxel (5::real) 7))) 3 (0, 0, 0, 0) =
       replicate 13 0 @ [5] @ replicate 13 0 \<and>
   receptive_field (pad3d 1 (dense_grid (two_voxel (5::real) 7))) 3 (0, 2, 2, 2) =
       replicate 13 0 @ [7] @ replicate 13 0"
  using two_voxel_patches [of "\<lambda>v. v" "5::real" 7] by blast

theorem two_voxel_float32_counterexample:
  "float32_of_int 16777217 = 16777216 \<and> float32_of_int 1 = 1 \<and> float32_of_int 0 = 0 \<and>
   receptive_field (pad3d 1 (dense_grid (two_voxel (16777217::int) 1))) 3 (0, 0, 0, 0) =
     replicate 13 0 @ [16777217] @ replicate 13 0 \<and>
   im2col_3d float32_of_int (two_voxel 16777217 1) 3 1 1 =
     Inr (map (\<lambda>r. if r = 0 then replicate 13 0 @ [16777216] @ replicate 13 0
                    else if r = 26 then replicate 13 0 @ [1] @ replicate 13 0
                    else replicate 27 0) [0..<27]) \<and>
   replicate 13 0 @ [16777216] @ replicate 13 0 \<noteq>
     receptive_field (pad3d 1 (dense_grid (two_voxel (16777217::int) 1))) 3 (0, 0, 0, 0)"
proof -
  have f: "receptive_field (pad3d 1 (dense_grid (two_voxel (16777217::int) 1))) 3 (0, 0, 0, 0) =
     replicate 13 0 @ [16777217] @ replicate 13 0"
    by (rule two_voxel_fields)
  have m: "im2col_3d float32_of_int (two_voxel 16777217 1) 3 1 1 =
     Inr (map (\<lambda>r. if r = 0 then replicate 13 0 @ [16777216] @ replicate 13 0
                    else if r = 26 then replicate 13 0 @ [1] @ replicate 13 0
                    else replicate 27 0) [0..<27])"
    by (simp only: two_voxel_im2col two_voxel_float32_masked)
  have n: "replicate 13 0 @ [16777216] @ replicate 13 0 \<noteq>
     receptive_field (pad3d 1 (dense_grid (two_voxel (16777217::int) 1))) 3 (0, 0, 0, 0)"
    unfolding f by simp
  show ?thesis
    by (intro conjI) (rule float32_example, rule float32_example, rule float32_example,
        rule f, rule m, rule n)
qed

section \<open>The padding\<close>

text \<open>
  Claim C4, as amended.  The padding is a parameter of \<^verbatim>\<open>im2col_3d\<close> (default 0), and
  the function pads by the amount it is given; it is the export hook that fixes it:
  every matrix the hook saves is the result of \<^verbatim>\<open>im2col_3d\<close> with stride 1 and
  padding \<open>K div 2\<close>, the patch matrix of the dense grid zero-padded by \<open>K div 2\<close>, and
  a layer with another stride saves nothing.
\<close>

theorem in_hook_padding:
  assumes "in_hook to_float32 inputs K stride = Inr cols"
  shows "if stride = 1
         then list_all2 (\<lambda>x col. im2col_3d to_float32 x K 1 (K div 2) = Inr col) inputs cols \<and>
              cols = map (\<lambda>x. masked_patches to_float32 x K (K div 2)) inputs
         else cols = []"
proof (cases "stride = 1")
  case True
  with in_hook_Inr [OF assms]
  have all: "list_all2 (\<lambda>x col. im2col_3d to_float32 x K 1 (K div 2) = Inr col) inputs cols"
    by simp
  then have "list_all2 (\<lambda>x col. col = masked_patches to_float32 x K (K div 2)) inputs cols"
    by (rule list_all2_mono) (rule im2col_3d_masked_patches)
  then have "cols = map (\<lambda>x. masked_patches to_float32 x K (K div 2)) inputs"
    by (induction rule: list_all2_induct) simp_all
  with True all show ?thesis by simp
next
  case False
  with in_hook_Inr [OF assms] show ?thesis by simp
qed

theorem in_hook_padding_witness:
  "in_hook (\<lambda>v. v) [one_voxel (5::real)] 3 1 = Inr [[replicate 13 0 @ [5] @ replicate 13 0]] \<and>
   [[replicate 13 0 @ [5::real] @ replicate 13 0]] =
     map (\<lambda>x. masked_patches (\<lambda>v. v) x 3 (3 div 2)) [one_voxel 5]"
proof -
  have p: "(3::int) div 2 = 1" by simp
  have h: "in_hook (\<lambda>v. v) [one_voxel (5::real)] 3 1 = Inr [[replicate 13 0 @ [5] @ replicate 13 0]]"
    by (simp only: in_hook.simps one_voxel_dense p one_voxel_im2col one_voxel_masked sum.case
          if_True prod.case refl)
  have c: "[[replicate 13 0 @ [5::real] @ replicate 13 0]] =
       map (\<lambda>x. masked_patches (\<lambda>v. v) x 3 (3 div 2)) [one_voxel 5]"
    using in_hook_padding [OF h] by (simp only: if_True refl)
  show ?thesis
    by (intro conjI) (rule h, rule c)
qed

theorem padding_parameter_counterexample:
  "im2col_3d (\<lambda>v. v) (one_voxel (5::real)) 3 1 2 =
     Inr ((replicate 26 0 @ [5]) # replicate 26 (replicate 27 0)) \<and>
   im2col_3d (\<lambda>v. v) (one_voxel (5::real)) 3 1 (3 div 2) =
     Inr [replicate 13 0 @ [5] @ replicate 13 0] \<and>
   size5 (pad_input 2 (dense_grid (one_voxel (5::real)))) = (1, 1, 5, 5, 5) \<and>
   size5 (pad_input (3 div 2) (dense_grid (one_voxel (5::real)))) = (1, 1, 3, 3, 3) \<and>
   im2col_3d (\<lambda>v. v) (one_voxel (5::real)) 3 1 0 = (Inl RuntimeError :: error + real list list)"
proof -
  have p: "(3::int) div 2 = 1" by simp
  have a: "im2col_3d (\<lambda>v. v) (one_voxel (5::real)) 3 1 2 =
     Inr ((replicate 26 0 @ [5]) # replicate 26 (replicate 27 0))"
    by (simp only: one_voxel_im2col_2 one_voxel_masked)
  have b: "im2col_3d (\<lambda>v. v) (one_voxel (5::real)) 3 1 (3 div 2) =
     Inr [replicate 13 0 @ [5] @ replicate 13 0]"
    unfolding p by (simp only: one_voxel_im2col one_voxel_masked)
  have s2: "size5 (pad_input 2 (dense_grid (one_voxel (5::real)))) = (1, 1, 5, 5, 5)"
    by (simp add: pad_input_def pad3d_def one_voxel_size)
  have s1: "size5 (pad_input (3 div 2) (dense_grid (one_voxel (5::real)))) = (1, 1, 3, 3, 3)"
    by (simp add: pad_input_def pad3d_def one_voxel_size)
  show ?thesis
    by (intro conjI) (rule a, rule b, rule s2, rule s1, rule one_voxel_im2col_0)
qed

section \<open>No mutation of the input\<close>

text \<open>
  Claim C6.  Let the store hold a sparse tensor at the address given to \<^verbatim>\<open>im2col_3d\<close>.
  After the call that address holds the same sparse tensor, every object that existed
  before the call is as it was (the call only adds objects to the store, five at most,
  the matrix it returns being the last), and the caller receives what the function
  \<^const>\<open>im2col_3d\<close> gives for that sparse tensor.  A second call with the same
  arguments, on the store the first call left, returns a matrix equal to the first
  one, or the same exception, and leaves the first matrix, the sparse tensor and every
  older object as they were.
\<close>

theorem im2col_3d_no_mutation:
  assumes "sparse_at \<sigma> input_sparse = Some s"
    and "im2col_3d_run to_float32 input_sparse K stride p \<sigma> = (r, \<sigma>')"
  shows "sparse_at \<sigma>' input_sparse = Some s \<and>
     take (length \<sigma>) \<sigma>' = \<sigma> \<and> length \<sigma>' \<le> length \<sigma> + 5 \<and>
     returned r \<sigma>' = im2col_3d to_float32 s K stride p \<and>
     (\<forall>x. r = Inr x \<longrightarrow> x = length \<sigma> + (if 0 < p then 4 else 3) \<and> length \<sigma>' = Suc x) \<and>
     (\<exists>r2 \<sigma>2. im2col_3d_run to_float32 input_sparse K stride p \<sigma>' = (r2, \<sigma>2) \<and>
        returned r2 \<sigma>2 = returned r \<sigma>' \<and>
        returned r \<sigma>2 = returned r \<sigma>' \<and>
        sparse_at \<sigma>2 input_sparse = Some s \<and>
        take (length \<sigma>) \<sigma>2 = \<sigma>)"
proof -
  have keep: "sparse_at \<tau>' input_sparse = Some s"
    if "sparse_at \<tau> input_sparse = Some s" and "take (length \<tau>) \<tau>' = \<tau>"
    for \<tau> \<tau>' :: "('a, 'b) store"
  proof -
    from that(1) have a: "input_sparse < length \<tau>" and o: "\<tau> ! input_sparse = Sparse s"
      by (auto simp: sparse_at_def split: if_splits object.splits)
    from that(2) have "length \<tau> \<le> length \<tau>'"
      by (metis length_take min.cobounded1)
    moreover from that(2) a have "\<tau>' ! input_sparse = \<tau> ! input_sparse"
      by (metis nth_take)
    ultimately show ?thesis
      using a o by (simp add: sparse_at_def)
  qed
  from im2col_3d_run_refines [OF assms(1), of to_float32 K stride p] assms(2)
  have ret: "returned r \<sigma>' = im2col_3d to_float32 s K stride p"
    and len: "length \<sigma> \<le> length \<sigma>'" and pre: "take (length \<sigma>) \<sigma>' = \<sigma>"
    and five: "length \<sigma>' \<le> length \<sigma> + 5"
    and adr: "\<forall>x. r = Inr x \<longrightarrow> (\<exists>m. matrix_at \<sigma>' x = Some m)"
    and new: "\<forall>x. r = Inr x \<longrightarrow> x = length \<sigma> + (if 0 < p then 4 else 3) \<and> length \<sigma>' = Suc x"
    by auto
  have s': "sparse_at \<sigma>' input_sparse = Some s"
    by (rule keep [OF assms(1) pre])
  from im2col_3d_run_refines [OF s', of to_float32 K stride p]
  obtain r2 \<sigma>2 where run2: "im2col_3d_run to_float32 input_sparse K stride p \<sigma>' = (r2, \<sigma>2)"
    and ret2: "returned r2 \<sigma>2 = im2col_3d to_float32 s K stride p"
    and len2: "length \<sigma>' \<le> length \<sigma>2" and pre2: "take (length \<sigma>') \<sigma>2 = \<sigma>'"
    by blast
  have s2: "sparse_at \<sigma>2 input_sparse = Some s"
    by (rule keep [OF s' pre2])
  have first: "returned r \<sigma>2 = returned r \<sigma>'"
  proof (cases r)
    case (Inl e)
    then show ?thesis by (simp add: returned_def)
  next
    case (Inr x)
    with adr obtain m where m: "matrix_at \<sigma>' x = Some m" by blast
    then have x: "x < length \<sigma>'" and o: "\<sigma>' ! x = Matrix m"
      by (auto simp: matrix_at_def split: if_splits object.splits)
    from pre2 x have "\<sigma>2 ! x = \<sigma>' ! x"
      by (metis nth_take)
    with x o len2 have "matrix_at \<sigma>2 x = Some m"
      by (simp add: matrix_at_def)
    with m Inr show ?thesis
      by (simp add: returned_def)
  qed
  have old: "take (length \<sigma>) \<sigma>2 = \<sigma>"
  proof -
    have "take (length \<sigma>) \<sigma>2 = take (length \<sigma>) (take (length \<sigma>') \<sigma>2)"
      using len by (simp add: min_def)
    also have "\<dots> = \<sigma>"
      unfolding pre2 by (rule pre)
    finally show ?thesis .
  qed
  have same: "returned r2 \<sigma>2 = returned r \<sigma>'"
    using ret ret2 by simp
  have second: "\<exists>r2 \<sigma>2. im2col_3d_run to_float32 input_sparse K stride p \<sigma>' = (r2, \<sigma>2) \<and>
        returned r2 \<sigma>2 = returned r \<sigma>' \<and>
        returned r \<sigma>2 = returned r \<sigma>' \<and>
        sparse_at \<sigma>2 input_sparse = Some s \<and>
        take (length \<sigma>) \<sigma>2 = \<sigma>"
    using run2 same first s2 old by blast
  show ?thesis
    by (intro conjI) (rule s', rule pre, rule five, rule ret, rule new, rule second)
qed

theorem im2col_3d_no_mutation_witness:
  "sparse_at ([Sparse (two_voxel 5 7)] :: (real, real) store) 0 = Some (two_voxel 5 7) \<and>
   fst (im2col_3d_run (\<lambda>v. v) 0 3 1 1 [Sparse (two_voxel (5::real) 7)]) = Inr 5 \<and>
   length (snd (im2col_3d_run (\<lambda>v. v) 0 3 1 1 [Sparse (two_voxel (5::real) 7)])) = 6 \<and>
   sparse_at (snd (im2col_3d_run (\<lambda>v. v) 0 3 1 1 [Sparse (two_voxel (5::real) 7)])) 0 =
     Some (two_voxel 5 7) \<and>
   take 1 (snd (im2col_3d_run (\<lambda>v. v) 0 3 1 1 [Sparse (two_voxel (5::real) 7)])) =
     [Sparse (two_voxel 5 7)] \<and>
   returned (fst (im2col_3d_run (\<lambda>v. v) 0 3 1 1 [Sparse (two_voxel (5::real) 7)]))
            (snd (im2col_3d_run (\<lambda>v. v) 0 3 1 1 [Sparse (two_voxel (5::real) 7)])) =
     Inr (map (\<lambda>r. if r = 0 then replicate 13 0 @ [5] @ replicate 13 0
                    else if r = 26 then replicate 13 0 @ [7] @ replicate 13 0
                    else replicate 27 0) [0..<27]) \<and>
   returned (fst (im2col_3d_run (\<lambda>v. v) 0 3 1 1
                    (snd (im2col_3d_run (\<lambda>v. v) 0 3 1 1 [Sparse (two_voxel (5::real) 7)]))))
            (snd (im2col_3d_run (\<lambda>v. v) 0 3 1 1
                    (snd (im2col_3d_run (\<lambda>v. v) 0 3 1 1 [Sparse (two_voxel (5::real) 7)])))) =
     Inr (map (\<lambda>r. if r = 0 then replicate 13 0 @ [5] @ replicate 13 0
                    else if r = 26 then replicate 13 0 @ [7] @ replicate 13 0
                    else replicate 27 0) [0..<27])"
proof -
  let ?\<sigma> = "[Sparse (two_voxel (5::real) 7)] :: (real, real) store"
  let ?M = "map (\<lambda>r. if r = 0 then replicate 13 0 @ [5::real] @ replicate 13 0
                    else if r = 26 then replicate 13 0 @ [7] @ replicate 13 0
                    else replicate 27 0) [0..<27]"
  define r where "r = fst (im2col_3d_run (\<lambda>v. v) 0 3 1 1 ?\<sigma>)"
  define \<sigma>' where "\<sigma>' = snd (im2col_3d_run (\<lambda>v. v) 0 3 1 1 ?\<sigma>)"
  have h1: "sparse_at ?\<sigma> 0 = Some (two_voxel 5 7)"
    by (simp add: sparse_at_def)
  have h2: "im2col_3d_run (\<lambda>v. v) 0 3 1 1 ?\<sigma> = (r, \<sigma>')"
    by (simp add: r_def \<sigma>'_def)
  note c = im2col_3d_no_mutation [OF h1 h2]
  have c1: "sparse_at \<sigma>' 0 = Some (two_voxel 5 7)"
    using c by blast
  have c2: "take 1 \<sigma>' = ?\<sigma>"
    using c by simp
  have c3: "returned r \<sigma>' = Inr ?M"
    using c two_voxel_im2col_values [of 5 7] by simp
  then obtain x where x: "r = Inr x"
    by (cases r) (simp_all add: returned_def)
  with c have "x = length ?\<sigma> + (if 0 < (1::int) then 4 else 3) \<and> length \<sigma>' = Suc x"
    by blast
  with x have c5: "r = Inr 5" and c6: "length \<sigma>' = 6"
    by simp_all
  from c obtain r2 \<sigma>2 where run2: "im2col_3d_run (\<lambda>v. v) 0 3 1 1 \<sigma>' = (r2, \<sigma>2)"
    and same: "returned r2 \<sigma>2 = returned r \<sigma>'"
    by blast
  have c4: "returned (fst (im2col_3d_run (\<lambda>v. v) 0 3 1 1 \<sigma>'))
      (snd (im2col_3d_run (\<lambda>v. v) 0 3 1 1 \<sigma>')) = Inr ?M"
    unfolding run2 using same c3 by simp
  show ?thesis
    using h1 c1 c2 c3 c4 c5 c6 unfolding r_def \<sigma>'_def by blast
qed

section \<open>The weight export is invertible\<close>

text \<open>
  Claim C7.  For a kernel tensor whose data fit its shape, the exported matrix (the
  first two axes swapped, then all leading axes flattened) gives the kernel back,
  element for element, when it is viewed with the transposed shape and the first two
  axes are swapped again; for a kernel with more than two axes the matrix has the
  kernel's last axis as its last dimension.
\<close>

theorem weight_export_round_trip:
  assumes "length (data k) = prod_list (shape k)" and "export_weight k = Inr w"
  shows "restore_weight (shape k) w = Inr k \<and>
     (2 < length (shape k) \<longrightarrow>
        shape w = [length (data k) div last (shape k), last (shape k)])"
proof -
  from assms(2) obtain a b rest where sh: "shape k = a # b # rest"
    by (auto simp: export_weight_def transpose01_def split: list.splits)
  define r where "r = prod_list rest"
  have len: "length (data k) = a * b * r"
    using assms(1) sh by (simp add: r_def)
  have w: "data w = map (\<lambda>i. data k ! transpose01_source a b r i) [0..<b * a * r]"
    using assms(2) sh
    by (auto simp: export_weight_def transpose01_def view_rows_def r_def split: if_splits)
  have "restore_weight (shape k) w =
      Inr \<lparr>shape = a # b # rest,
           data = map (\<lambda>j. data w ! transpose01_source b a r j) [0..<a * b * r]\<rparr>"
    using w sh by (simp add: restore_weight_def view_def transpose01_def r_def)
  also have "map (\<lambda>j. data w ! transpose01_source b a r j) [0..<a * b * r] = data k"
    unfolding w by (rule transpose01_twice [OF len])
  finally have restored: "restore_weight (shape k) w = Inr k"
    using sh by simp
  have "shape w = [length (data k) div last (shape k), last (shape k)]"
    if "2 < length (shape k)"
  proof -
    from that sh have "rest \<noteq> []" by auto
    then have "last (b # a # rest) = last (shape k)"
      using sh by simp
    then show ?thesis
      using assms(2) sh len
      by (auto simp: export_weight_def transpose01_def view_rows_def r_def mult.commute
            split: if_splits)
  qed
  with restored show ?thesis by blast
qed

theorem weight_export_round_trip_witness:
  "length (data \<lparr>shape = [2, 3, 2], data = [0::int, 1, 2, 3, 4, 5, 6, 7, 8, 9, 10, 11]\<rparr>) =
     prod_list (shape \<lparr>shape = [2, 3, 2], data = [0::int, 1, 2, 3, 4, 5, 6, 7, 8, 9, 10, 11]\<rparr>) \<and>
   export_weight \<lparr>shape = [2, 3, 2], data = [0::int, 1, 2, 3, 4, 5, 6, 7, 8, 9, 10, 11]\<rparr> =
     Inr \<lparr>shape = [6, 2], data = [0, 1, 6, 7, 2, 3, 8, 9, 4, 5, 10, 11]\<rparr> \<and>
   restore_weight [2, 3, 2] \<lparr>shape = [6, 2], data = [0, 1, 6, 7, 2, 3, 8, 9, 4, 5, 10, 11]\<rparr> =
     Inr \<lparr>shape = [2, 3, 2], data = [0::int, 1, 2, 3, 4, 5, 6, 7, 8, 9, 10, 11]\<rparr>"
proof -
  let ?k = "\<lparr>shape = [2, 3, 2], data = [0::int, 1, 2, 3, 4, 5, 6, 7, 8, 9, 10, 11]\<rparr>"
  have h1: "length (data ?k) = prod_list (shape ?k)" by simp
  have h2: "export_weight ?k = Inr \<lparr>shape = [6, 2], data = [0, 1, 6, 7, 2, 3, 8, 9, 4, 5, 10, 11]\<rparr>"
    by code_simp
  have "restore_weight (shape ?k) \<lparr>shape = [6, 2], data = [0, 1, 6, 7, 2, 3, 8, 9, 4, 5, 10, 11]\<rparr> =
      Inr ?k"
    using weight_export_round_trip [OF h1 h2] by blast
  with h1 h2 show ?thesis by simp
qed

section \<open>Colour normalisation writes in place\<close>

text \<open>
  Claim C8.  After \<^verbatim>\<open>normalize_color\<close> the tensor of the caller holds the shifted
  values (divided by 255 first when the flag is set, then decremented by one half),
  the value returned is the float conversion of that tensor, no other tensor of the
  store changes, and the store is unchanged only when the shift leaves every element
  as it was.
\<close>

theorem normalize_color_in_place:
  assumes "normalize_color to_float h color flag = (ret, h')"
  shows "h' color = map (\<lambda>v. (if flag then v / 255 else v) - 1 / 2) (h color) \<and>
     ret = map to_float (h' color) \<and>
     h' = h(color := h' color) \<and>
     (h' = h) = (map (\<lambda>v. (if flag then v / 255 else v) - 1 / 2) (h color) = h color)"
proof -
  have h': "h' = h(color := map (\<lambda>v. (if flag then v / 255 else v) - 1 / 2) (h color))"
  proof (cases flag)
    case True
    with assms show ?thesis by (simp add: normalize_color_def o_def)
  next
    case False
    with assms show ?thesis by (simp add: normalize_color_def)
  qed
  have ret: "ret = map to_float (h' color)"
    using assms by (cases flag) (auto simp: normalize_color_def)
  have "(h' = h) = (map (\<lambda>v. (if flag then v / 255 else v) - 1 / 2) (h color) = h color)"
    unfolding h' by (auto simp: fun_upd_idem_iff)
  moreover have "h' color = map (\<lambda>v. (if flag then v / 255 else v) - 1 / 2) (h color)"
    unfolding h' by simp
  moreover have "h' = h(color := h' color)"
    unfolding h' by simp
  ultimately show ?thesis
    using ret by blast
qed

theorem normalize_color_in_place_witness:
  "normalize_color real_of_rat ((\<lambda>_. [])(0 := [255, 0, 51])) 0 True =
     ([1 / 2, - 1 / 2, - 3 / 10], (\<lambda>_. [])(0 := [1 / 2, - 1 / 2, - 3 / 10])) \<and>
   ((\<lambda>_. [])(0 := [1 / 2, - 1 / 2, - 3 / 10 :: rat])) (0::nat) =
     map (\<lambda>v. (if True then v / 255 else v) - 1 / 2) (((\<lambda>_. [])(0::nat := [255, 0, 51])) 0) \<and>
   ((\<lambda>_. [])(0 := [1 / 2, - 1 / 2, - 3 / 10 :: rat])) (0::nat) \<noteq>
     ((\<lambda>_. [])(0 := [255, 0, 51])) (0::nat)"
proof -
  have h: "normalize_color real_of_rat ((\<lambda>_. [])(0 := [255, 0, 51])) 0 True =
     ([1 / 2, - 1 / 2, - 3 / 10], (\<lambda>_. [])(0 := [1 / 2, - 1 / 2, - 3 / 10]))"
    by (simp add: normalize_color_def of_rat_divide of_rat_minus)
  have c: "((\<lambda>_. [])(0 := [1 / 2, - 1 / 2, - 3 / 10 :: rat])) (0::nat) =
     map (\<lambda>v. (if True then v / 255 else v) - 1 / 2) (((\<lambda>_. [])(0::nat := [255, 0, 51])) 0)"
    using normalize_color_in_place [OF h] by blast
  have n: "((\<lambda>_. [])(0 := [1 / 2, - 1 / 2, - 3 / 10 :: rat])) (0::nat) \<noteq>
     ((\<lambda>_. [])(0 := [255, 0, 51])) (0::nat)"
    by simp
  show ?thesis
    by (intro conjI) (rule h, rule c, rule n)
qed

end
